theory Spec2Isabelle
  imports Complex_Main "HOL-Library.Product_Lexorder" "HOL-Library.List_Lexorder"
    "HOL-Library.Char_ord" "HOL-Library.Multiset"
begin

section \<open>Data model (src/types/skills.ts and DATABASE_SETUP.md)\<close>

text \<open>
  A DATE column reaches the code as the string \<open>YYYY-MM-DD\<close>. It is modelled as the
  triple (year, month 1..12, day) it denotes; on four-digit years the lexicographic order of
  triples is the order of the strings. Generated columns that no code path reads
  (\<open>created_at\<close>, \<open>updated_at\<close>, the id of a rating row) are left out. A JavaScript
  \<open>number\<close> that holds a count is a \<open>nat\<close>, one that holds a rating or a time value an
  \<open>int\<close>, and one that holds a mean or a rate the exact quotient, a \<open>rat\<close>: the rounding
  of floating-point division is not modelled. Two means of ratings that differ as
  quotients differ by far more than that rounding, so their order is the code's; two
  quantities that are equal as quotients but computed along different paths can differ in
  the code by a unit in the last place, and no statement below equates such quantities
  except at values that doubles hold exactly.
\<close>

type_synonym iso_date = "int \<times> int \<times> int"

datatype priority = high | medium | low

record Skill =
  s_id :: string
  s_name :: string
  is_active :: bool

record Task =
  t_id :: string
  user_id :: string
  title :: string
  description :: string
  task_date :: iso_date
  external_link :: "string option"
  priority :: priority
  delivered_on_time :: bool
  manager_found_issues :: bool
  manager_notes :: "string option"
  manager_helped_analysis :: bool

record SkillRating =
  task_id :: string
  skill_id :: string
  rating :: int

record TaskWithDetails =
  task :: Task
  ratings_with_skill :: "(SkillRating \<times> Skill option) list"
  twd_average_rating :: rat

record SkillAverage =
  sa_skill_id :: string
  sa_skill_name :: string
  average_rating :: rat
  rating_count :: nat
  min_rating :: int
  max_rating :: int

record SkillTrend =
  tr_skill_id :: string
  tr_skill_name :: string
  period :: iso_date
  tr_average_rating :: rat
  tr_rating_count :: nat

record OverallAverages =
  all_skills :: "SkillAverage list"
  strengths :: "SkillAverage list"
  growth_opportunities :: "SkillAverage list"

record PerformanceSummary =
  total_tasks :: nat
  overall_average :: rat
  skill_averages :: "SkillAverage list"
  summary_strengths :: "SkillAverage list"
  summary_growth_opportunities :: "SkillAverage list"
  on_time_delivery_rate :: rat
  manager_issues_rate :: rat
  manager_helped_rate :: rat

text \<open>\<open>skill_ratings: Map<string, number>\<close> is the list of its entries in insertion order.\<close>

record TaskSubmissionFormData =
  f_title :: string
  f_description :: string
  f_task_date :: iso_date
  f_external_link :: "string option"
  f_priority :: priority
  f_delivered_on_time :: bool
  f_manager_found_issues :: bool
  f_manager_notes :: "string option"
  f_manager_helped_analysis :: bool
  f_skill_ratings :: "(string \<times> int) list"

section \<open>The storage service and the environment of a request\<close>

record db =
  skills :: "Skill list"
  tasks :: "Task list"
  skill_ratings :: "SkillRating list"

text \<open>One constructor for each place where the code sends a statement to the storage service.\<close>

datatype query =
  QGetAllSkills | QInsertTask | QInsertRatings | QDeleteTask | QSelectOwner | QUpdateTask
  | QDeleteRatings | QListTasks | QGetTask | QRatingsAllTime | QRatingsRange | QTasksSummary

text \<open>
  What a request cannot control.
  \<^item> \<open>session\<close>: the user that \<open>supabase.auth.getUser()\<close> yields; \<open>None\<close> when it
    reports an error or no user, or when no client could be created.
  \<^item> \<open>rls\<close>: whether statements run under the row-level security policies of
    DATABASE_SETUP.md (the client that \<open>createClient\<close> builds is not part of the sources).
  \<^item> \<open>down\<close>: the statements that come back with an error for a reason outside the
    data (network, service).
  \<^item> \<open>rpc_overall\<close>: the answer of the remote procedure \<open>get_overall_skill_averages\<close>,
    which the repository does not define; \<open>None\<close> when the call reports an error, and a
    null \<open>data\<close> without error is the empty list that \<open>data || []\<close> makes of it.
  \<^item> \<open>embed_arrays\<close>: whether an embedded relation arrives as a one-element array or as
    an object.
  \<^item> \<open>new_task_id\<close>: the id the database generates for the next task row.
  \<^item> \<open>tza\<close>: the offset of local time from UTC in milliseconds, taken as constant;
    \<open>now\<close>: the time value of \<open>new Date()\<close>.
\<close>

record env =
  session :: "string option"
  rls :: bool
  down :: "query set"
  rpc_overall :: "string \<Rightarrow> SkillAverage list option"
  embed_arrays :: bool
  new_task_id :: string
  tza :: int
  now :: int

definition getCurrentUser :: "env \<Rightarrow> string + string" where
  "getCurrentUser e =
     (case session e of None \<Rightarrow> Inl ''Not authenticated'' | Some u \<Rightarrow> Inr u)"

definition find_task :: "db \<Rightarrow> string \<Rightarrow> Task option" where
  "find_task d k = find (\<lambda>t. t_id t = k) (tasks d)"

definition find_skill :: "db \<Rightarrow> string \<Rightarrow> Skill option" where
  "find_skill d k = find (\<lambda>s. s_id s = k) (skills d)"

text \<open>
  The row-level security policies: every policy on \<open>tasks\<close> (SELECT, INSERT, UPDATE,
  DELETE) is \<open>auth.uid() = user_id\<close>, the policies on \<open>skill_ratings\<close> ask it of the
  task of the rating, and a skill can be selected while it is active.
\<close>

definition task_policy :: "env \<Rightarrow> Task \<Rightarrow> bool" where
  "task_policy e t = (if rls e then session e = Some (user_id t) else True)"

definition skill_policy :: "env \<Rightarrow> Skill \<Rightarrow> bool" where
  "skill_policy e s = (if rls e then is_active s else True)"

definition embedded_skill :: "env \<Rightarrow> db \<Rightarrow> string \<Rightarrow> Skill option" where
  "embedded_skill e d k =
     (case find_skill d k of
        None \<Rightarrow> None
      | Some s \<Rightarrow> if skill_policy e s then Some s else None)"

subsection \<open>Embedded relations: an object or a one-element array\<close>

datatype 'a embedded = Obj "'a option" | Arr "'a list"

definition embed :: "env \<Rightarrow> 'a option \<Rightarrow> 'a embedded" where
  "embed e x =
     (if embed_arrays e then Arr (case x of None \<Rightarrow> [] | Some v \<Rightarrow> [v]) else Obj x)"

text \<open>\<open>Array.isArray(x) ? x[0] : x\<close>\<close>

fun unwrap :: "'a embedded \<Rightarrow> 'a option" where
  "unwrap (Obj x) = x"
| "unwrap (Arr []) = None"
| "unwrap (Arr (x # xs)) = Some x"

text \<open>
  A row of \<open>skill_ratings\<close> selected with \<open>skill:skills (id, name)\<close> and
  \<open>task:tasks!inner (user_id, task_date)\<close>.
\<close>

record rating_row =
  row_rating :: int
  row_skill :: "(string \<times> string) embedded"
  row_task :: "(string \<times> iso_date) embedded"

text \<open>
  The rating rows of the tasks of user \<open>uid\<close> whose task date satisfies \<open>in_range\<close>: the
  inner join drops a rating whose task does not pass the filters.
\<close>

definition select_ratings :: "env \<Rightarrow> db \<Rightarrow> string \<Rightarrow> (iso_date \<Rightarrow> bool) \<Rightarrow> rating_row list" where
  "select_ratings e d uid in_range =
     concat (map (\<lambda>r.
        case find_task d (task_id r) of
          None \<Rightarrow> []
        | Some t \<Rightarrow>
            if user_id t = uid \<and> task_policy e t \<and> in_range (task_date t)
            then [\<lparr>row_rating = rating r,
                   row_skill = embed e (map_option (\<lambda>s. (s_id s, s_name s))
                                          (embedded_skill e d (skill_id r))),
                   row_task = embed e (Some (user_id t, task_date t))\<rparr>]
            else [])
       (skill_ratings d))"

section \<open>JavaScript arrays\<close>

text \<open>
  \<open>Array.prototype.sort(cmp)\<close> is a stable sort: \<open>a\<close> comes before \<open>b\<close> when
  \<open>cmp(a, b) < 0\<close>, and elements that compare equal keep their order. Here the elements
  are inserted from the last to the first, each before the first element it does not
  exceed, so an element stays in front of the later ones it is equal to.
\<close>

fun insert_by :: "('a \<Rightarrow> 'a \<Rightarrow> 'b::{linorder,zero}) \<Rightarrow> 'a \<Rightarrow> 'a list \<Rightarrow> 'a list" where
  "insert_by cmp x [] = [x]"
| "insert_by cmp x (y # ys) =
     (if cmp x y \<le> 0 then x # y # ys else y # insert_by cmp x ys)"

definition array_sort :: "('a \<Rightarrow> 'a \<Rightarrow> 'b::{linorder,zero}) \<Rightarrow> 'a list \<Rightarrow> 'a list" where
  "array_sort cmp xs = foldr (insert_by cmp) xs []"

text \<open>\<open>xs.slice(0, 5)\<close> and \<open>xs.slice(-5)\<close>\<close>

definition slice_first5 :: "'a list \<Rightarrow> 'a list" where
  "slice_first5 xs = take 5 xs"

definition slice_last5 :: "'a list \<Rightarrow> 'a list" where
  "slice_last5 xs = drop (length xs - 5) xs"

section \<open>Overall skill averages (performance actions, \<open>getOverallSkillAverages\<close>)\<close>

text \<open>
  \<open>skillMap\<close>: a Map from skill id to its ratings and name, as the list of its entries in
  insertion order.
\<close>

type_synonym skillMap = "(string \<times> int list \<times> string) list"

definition map_has :: "('k \<times> 'v) list \<Rightarrow> 'k \<Rightarrow> bool" where
  "map_has m k = (k \<in> fst ` set m)"

definition push_rating :: "skillMap \<Rightarrow> string \<Rightarrow> int \<Rightarrow> skillMap" where
  "push_rating m k v =
     map (\<lambda>(k', rs, nm). if k' = k then (k', rs @ [v], nm) else (k', rs, nm)) m"

text \<open>The body of \<open>manualData.forEach\<close>.\<close>

definition skillMap_add :: "rating_row \<Rightarrow> skillMap \<Rightarrow> skillMap" where
  "skillMap_add item m =
     (case unwrap (row_skill item) of
        None \<Rightarrow> m
      | Some (sid, nm) \<Rightarrow>
          if sid \<noteq> [] \<and> nm \<noteq> []
          then push_rating (if map_has m sid then m else m @ [(sid, [], nm)]) sid (row_rating item)
          else m)"

text \<open>
  \<open>Math.min(...ratings)\<close> and \<open>Math.max(...ratings)\<close>. Every entry of \<open>skillMap\<close> holds at
  least one rating (lemma \<open>skillMap_entries_nonempty\<close>), so the value at the empty list is
  never read, and the mean never divides by zero.
\<close>

fun math_min :: "int list \<Rightarrow> int" where
  "math_min [] = 0"
| "math_min [x] = x"
| "math_min (x # xs) = min x (math_min xs)"

fun math_max :: "int list \<Rightarrow> int" where
  "math_max [] = 0"
| "math_max [x] = x"
| "math_max (x # xs) = max x (math_max xs)"

definition mean :: "int list \<Rightarrow> rat" where
  "mean rs = of_int (sum_list rs) / of_nat (length rs)"

definition to_average :: "string \<times> int list \<times> string \<Rightarrow> SkillAverage" where
  "to_average = (\<lambda>(k, rs, nm).
     \<lparr>sa_skill_id = k, sa_skill_name = nm, average_rating = mean rs,
      rating_count = length rs, min_rating = math_min rs, max_rating = math_max rs\<rparr>)"

text \<open>
  The four lines both branches end with: sort by average rating, then cut the two lists.
\<close>

definition rank_skills :: "SkillAverage list \<Rightarrow> OverallAverages" where
  "rank_skills xs =
     (let sorted_skills = array_sort (\<lambda>a b. average_rating b - average_rating a) xs
      in \<lparr>all_skills = sorted_skills,
          strengths = slice_first5 sorted_skills,
          growth_opportunities = rev (slice_last5 sorted_skills)\<rparr>)"

definition empty_overall :: OverallAverages where
  "empty_overall = \<lparr>all_skills = [], strengths = [], growth_opportunities = []\<rparr>"

text \<open>
  \<open>try { ... } catch (error) { return fallback }\<close>: a computation that throws is
  \<open>Inl\<close> of the message of the error.
\<close>

definition try_catch :: "string + 'a \<Rightarrow> 'a \<Rightarrow> 'a" where
  "try_catch body fallback = (case body of Inl msg \<Rightarrow> fallback | Inr v \<Rightarrow> v)"

definition getOverallSkillAverages_try :: "env \<Rightarrow> db \<Rightarrow> string + OverallAverages" where
  "getOverallSkillAverages_try e d =
     (case getCurrentUser e of
        Inl msg \<Rightarrow> Inl msg
      | Inr uid \<Rightarrow>
          (case rpc_overall e uid of
             None \<Rightarrow>
               if QRatingsAllTime \<in> down e then Inr empty_overall
               else Inr (rank_skills
                      (map to_average
                         (fold skillMap_add (select_ratings e d uid (\<lambda>dt. True)) [])))
           | Some data \<Rightarrow> Inr (rank_skills data)))"

definition getOverallSkillAverages :: "env \<Rightarrow> db \<Rightarrow> OverallAverages" where
  "getOverallSkillAverages e d = try_catch (getOverallSkillAverages_try e d) empty_overall"

text \<open>The list \<open>all_skills\<close> as it stands just before it is sorted (empty on a failure).\<close>

definition unsorted_all_skills :: "env \<Rightarrow> db \<Rightarrow> SkillAverage list" where
  "unsorted_all_skills e d =
     (case session e of
        None \<Rightarrow> []
      | Some uid \<Rightarrow>
          (case rpc_overall e uid of
             None \<Rightarrow>
               if QRatingsAllTime \<in> down e then []
               else map to_average (fold skillMap_add (select_ratings e d uid (\<lambda>dt. True)) [])
           | Some data \<Rightarrow> data))"

section \<open>JavaScript dates\<close>

text \<open>
  A \<open>Date\<close> is its time value: milliseconds since 1970-01-01T00:00Z. The functions are
  the abstract operations of the language definition (ECMA-262, "Time Values and Time
  Range" to "MakeDate"), with their names. \<open>YearFromTime(t)\<close> is defined there as the
  largest year \<open>y\<close> with \<open>DayFromYear(y) \<le> Day(t)\<close>; \<open>year_of_day\<close> computes it from an
  estimate that is off by at most one (lemmas \<open>year_of_day_bounds\<close>,
  \<open>year_of_day_largest\<close>).

  Two limits. The offset of local time is the one constant \<open>tza\<close>: a zone whose offset
  changes between the instants of a computation (daylight saving time) is outside the
  model. Time values are taken to stay in the range of \<open>Date\<close>, where the \<open>TimeClip\<close>
  that ends \<open>setDate\<close> and \<open>setMonth\<close> changes nothing; this holds for the dates of the
  tables and for a \<open>weekCount\<close> of less than about 14 million (beyond that the start date
  is invalid, \<open>toISOString\<close> throws and the entry point returns the empty list).
\<close>

definition msPerDay :: int where
  "msPerDay = 86400000"

definition Day :: "int \<Rightarrow> int" where
  "Day t = t div msPerDay"

definition TimeWithinDay :: "int \<Rightarrow> int" where
  "TimeWithinDay t = t mod msPerDay"

text \<open>0 is Sunday, 1 is Monday, ..., 6 is Saturday.\<close>

definition WeekDay :: "int \<Rightarrow> int" where
  "WeekDay t = (Day t + 4) mod 7"

definition DayFromYear :: "int \<Rightarrow> int" where
  "DayFromYear y =
     365 * (y - 1970) + (y - 1969) div 4 - (y - 1901) div 100 + (y - 1601) div 400"

text \<open>1 in a leap year (\<open>DaysInYear(y) = 366\<close>), 0 otherwise.\<close>

definition InLeapYear :: "int \<Rightarrow> int" where
  "InLeapYear y =
     (if y mod 4 \<noteq> 0 then 0 else if y mod 100 \<noteq> 0 then 1 else if y mod 400 \<noteq> 0 then 0 else 1)"

definition year_of_day :: "int \<Rightarrow> int" where
  "year_of_day d =
     (let y = 1970 + (400 * d) div 146097
      in if DayFromYear (y + 1) \<le> d then y + 1 else if DayFromYear y \<le> d then y else y - 1)"

definition YearFromTime :: "int \<Rightarrow> int" where
  "YearFromTime t = year_of_day (Day t)"

definition DayWithinYear :: "int \<Rightarrow> int" where
  "DayWithinYear t = Day t - DayFromYear (YearFromTime t)"

text \<open>
  The day within the year on which month \<open>m\<close> (0 is January, ..., 11 is December) starts:
  the thresholds of the table of \<open>MonthFromTime\<close>.
\<close>

definition month_start :: "int \<Rightarrow> int \<Rightarrow> int" where
  "month_start m leap =
     (if m = 0 then 0 else if m = 1 then 31 else if m = 2 then 59 + leap
      else if m = 3 then 90 + leap else if m = 4 then 120 + leap
      else if m = 5 then 151 + leap else if m = 6 then 181 + leap
      else if m = 7 then 212 + leap else if m = 8 then 243 + leap
      else if m = 9 then 273 + leap else if m = 10 then 304 + leap else 334 + leap)"

definition MonthFromTime :: "int \<Rightarrow> int" where
  "MonthFromTime t =
     (let dwy = DayWithinYear t; leap = InLeapYear (YearFromTime t)
      in if dwy < 31 then 0 else if dwy < 59 + leap then 1 else if dwy < 90 + leap then 2
         else if dwy < 120 + leap then 3 else if dwy < 151 + leap then 4
         else if dwy < 181 + leap then 5 else if dwy < 212 + leap then 6
         else if dwy < 243 + leap then 7 else if dwy < 273 + leap then 8
         else if dwy < 304 + leap then 9 else if dwy < 334 + leap then 10 else 11)"

definition DateFromTime :: "int \<Rightarrow> int" where
  "DateFromTime t =
     DayWithinYear t - month_start (MonthFromTime t) (InLeapYear (YearFromTime t)) + 1"

text \<open>
  \<open>MakeDay(year, month, date)\<close>: the day number of the first of the month, plus
  \<open>date - 1\<close>; a month outside 0..11 carries into the year.
\<close>

definition MakeDay :: "int \<Rightarrow> int \<Rightarrow> int \<Rightarrow> int" where
  "MakeDay year month dt =
     (let ym = year + month div 12; mn = month mod 12
      in DayFromYear ym + month_start mn (InLeapYear ym) + dt - 1)"

definition MakeDate :: "int \<Rightarrow> int \<Rightarrow> int" where
  "MakeDate dy tm = dy * msPerDay + tm"

definition LocalTime :: "env \<Rightarrow> int \<Rightarrow> int" where
  "LocalTime e t = t + tza e"

definition UTC :: "env \<Rightarrow> int \<Rightarrow> int" where
  "UTC e t = t - tza e"

text \<open>\<open>new Date('YYYY-MM-DD')\<close>: a date-only string is midnight UTC of that day.\<close>

definition Date_parse :: "iso_date \<Rightarrow> int" where
  "Date_parse = (\<lambda>(y, m, d). MakeDate (MakeDay y (m - 1) d) 0)"

text \<open>
  \<open>new Date(year, monthIndex, day)\<close>: midnight local time (the years 0 to 99, which this
  constructor moves to 1900 to 1999, do not occur).
\<close>

definition Date_local :: "env \<Rightarrow> int \<Rightarrow> int \<Rightarrow> int \<Rightarrow> int" where
  "Date_local e year month dt = UTC e (MakeDate (MakeDay year month dt) 0)"

definition getDate :: "env \<Rightarrow> int \<Rightarrow> int" where
  "getDate e t = DateFromTime (LocalTime e t)"

definition getDay :: "env \<Rightarrow> int \<Rightarrow> int" where
  "getDay e t = WeekDay (LocalTime e t)"

definition getMonth :: "env \<Rightarrow> int \<Rightarrow> int" where
  "getMonth e t = MonthFromTime (LocalTime e t)"

definition getFullYear :: "env \<Rightarrow> int \<Rightarrow> int" where
  "getFullYear e t = YearFromTime (LocalTime e t)"

definition setDate :: "env \<Rightarrow> int \<Rightarrow> int \<Rightarrow> int" where
  "setDate e t dt =
     (let lt = LocalTime e t
      in UTC e (MakeDate (MakeDay (YearFromTime lt) (MonthFromTime lt) dt) (TimeWithinDay lt)))"

definition setMonth :: "env \<Rightarrow> int \<Rightarrow> int \<Rightarrow> int" where
  "setMonth e t m =
     (let lt = LocalTime e t
      in UTC e (MakeDate (MakeDay (YearFromTime lt) m (DateFromTime lt)) (TimeWithinDay lt)))"

text \<open>\<open>toISOString().split('T')[0]\<close>: the calendar date in UTC.\<close>

definition toISODate :: "int \<Rightarrow> iso_date" where
  "toISODate t = (YearFromTime t, MonthFromTime t + 1, DateFromTime t)"

definition localeCompare :: "iso_date \<Rightarrow> iso_date \<Rightarrow> int" where
  "localeCompare a b = (if a < b then - 1 else if a = b then 0 else 1)"

section \<open>Trends (performance actions, \<open>getWeeklySkillTrends\<close>, \<open>getMonthlySkillTrends\<close>)\<close>

text \<open>
  \<open>weekStart\<close> ("Get Monday of the week") and \<open>weekKey\<close> for a task date.
\<close>

definition weekStart :: "env \<Rightarrow> iso_date \<Rightarrow> int" where
  "weekStart e td =
     (let taskDate = Date_parse td
      in setDate e taskDate (getDate e taskDate - getDay e taskDate + 1))"

definition week_key :: "env \<Rightarrow> iso_date \<Rightarrow> iso_date" where
  "week_key e td = toISODate (weekStart e td)"

text \<open>
  \<open>monthStart\<close> ("Get first day of month") and \<open>monthKey\<close> for a task date.
\<close>

definition monthStart :: "env \<Rightarrow> iso_date \<Rightarrow> int" where
  "monthStart e td =
     (let taskDate = Date_parse td
      in Date_local e (getFullYear e taskDate) (getMonth e taskDate) 1)"

definition month_key :: "env \<Rightarrow> iso_date \<Rightarrow> iso_date" where
  "month_key e td = toISODate (monthStart e td)"

text \<open>\<open>trendMap\<close>: a Map from skill id to a Map from period key to ratings.\<close>

type_synonym trendMap = "(string \<times> (iso_date \<times> int list) list) list"

definition push_to :: "('k \<times> 'v list) list \<Rightarrow> 'k \<Rightarrow> 'v \<Rightarrow> ('k \<times> 'v list) list" where
  "push_to m k v = map (\<lambda>(k', vs). if k' = k then (k', vs @ [v]) else (k', vs)) m"

definition trendMap_add :: "(iso_date \<Rightarrow> iso_date) \<Rightarrow> rating_row \<Rightarrow> trendMap \<Rightarrow> trendMap" where
  "trendMap_add key item m =
     (case (unwrap (row_skill item), unwrap (row_task item)) of
        (Some (sid, nm), Some (uid, td)) \<Rightarrow>
          if sid \<noteq> []
          then map (\<lambda>(s, periods).
                 if s = sid
                 then (s, push_to (if map_has periods (key td) then periods
                                   else periods @ [(key td, [])])
                            (key td) (row_rating item))
                 else (s, periods))
               (if map_has m sid then m else m @ [(sid, [])])
          else m
      | _ \<Rightarrow> m)"

text \<open>
  \<open>data.find(...)\<close> for the first row of the skill, then \<open>skill?.name || 'Unknown'\<close>.
\<close>

definition skill_name_of :: "rating_row list \<Rightarrow> string \<Rightarrow> string" where
  "skill_name_of data sid =
     (case find (\<lambda>item. case unwrap (row_skill item) of
                          None \<Rightarrow> False
                        | Some (k, nm) \<Rightarrow> k = sid) data of
        None \<Rightarrow> ''Unknown''
      | Some item \<Rightarrow>
          (case unwrap (row_skill item) of
             None \<Rightarrow> ''Unknown''
           | Some (k, nm) \<Rightarrow> if nm = [] then ''Unknown'' else nm))"

definition build_trends :: "(iso_date \<Rightarrow> iso_date) \<Rightarrow> rating_row list \<Rightarrow> SkillTrend list" where
  "build_trends key data =
     array_sort (\<lambda>a b. localeCompare (period a) (period b))
       (concat (map (\<lambda>(sid, periods).
          map (\<lambda>(k, rs).
            \<lparr>tr_skill_id = sid, tr_skill_name = skill_name_of data sid, period = k,
             tr_average_rating = mean rs, tr_rating_count = length rs\<rparr>) periods)
          (fold (trendMap_add key) data [])))"

definition between :: "iso_date \<Rightarrow> iso_date \<Rightarrow> iso_date \<Rightarrow> bool" where
  "between lo hi dt = (lo \<le> dt \<and> dt \<le> hi)"

definition getWeeklySkillTrends_try :: "env \<Rightarrow> db \<Rightarrow> int \<Rightarrow> string + SkillTrend list" where
  "getWeeklySkillTrends_try e d weekCount =
     (case getCurrentUser e of
        Inl msg \<Rightarrow> Inl msg
      | Inr uid \<Rightarrow>
          (let endDate = now e;
               startDate = setDate e (now e) (getDate e (now e) - weekCount * 7)
           in if QRatingsRange \<in> down e then Inr []
              else Inr (build_trends (week_key e)
                     (select_ratings e d uid
                        (between (toISODate startDate) (toISODate endDate))))))"

definition getWeeklySkillTrends :: "env \<Rightarrow> db \<Rightarrow> int \<Rightarrow> SkillTrend list" where
  "getWeeklySkillTrends e d weekCount = try_catch (getWeeklySkillTrends_try e d weekCount) []"

definition getMonthlySkillTrends_try :: "env \<Rightarrow> db \<Rightarrow> int \<Rightarrow> string + SkillTrend list" where
  "getMonthlySkillTrends_try e d monthCount =
     (case getCurrentUser e of
        Inl msg \<Rightarrow> Inl msg
      | Inr uid \<Rightarrow>
          (let endDate = now e;
               startDate = setMonth e (now e) (getMonth e (now e) - monthCount)
           in if QRatingsRange \<in> down e then Inr []
              else Inr (build_trends (month_key e)
                     (select_ratings e d uid
                        (between (toISODate startDate) (toISODate endDate))))))"

definition getMonthlySkillTrends :: "env \<Rightarrow> db \<Rightarrow> int \<Rightarrow> SkillTrend list" where
  "getMonthlySkillTrends e d monthCount =
     try_catch (getMonthlySkillTrends_try e d monthCount) []"

section \<open>Performance summary (performance actions, \<open>getPerformanceSummary\<close>)\<close>

text \<open>
  The optional \<open>startDate\<close> and \<open>endDate\<close> are \<open>None\<close> when they are undefined or the
  empty string, the two values for which \<open>if (startDate)\<close> skips the filter.
\<close>

definition in_period :: "iso_date option \<Rightarrow> iso_date option \<Rightarrow> iso_date \<Rightarrow> bool" where
  "in_period startDate endDate dt =
     ((case startDate of None \<Rightarrow> True | Some s \<Rightarrow> s \<le> dt) \<and>
      (case endDate of None \<Rightarrow> True | Some u \<Rightarrow> dt \<le> u))"

definition select_tasks :: "env \<Rightarrow> db \<Rightarrow> string \<Rightarrow> iso_date option \<Rightarrow> iso_date option \<Rightarrow> Task list" where
  "select_tasks e d uid startDate endDate =
     filter (\<lambda>t. user_id t = uid \<and> task_policy e t \<and> in_period startDate endDate (task_date t))
       (tasks d)"

definition empty_summary :: PerformanceSummary where
  "empty_summary =
     \<lparr>total_tasks = 0, overall_average = 0, skill_averages = [], summary_strengths = [],
      summary_growth_opportunities = [], on_time_delivery_rate = 0, manager_issues_rate = 0,
      manager_helped_rate = 0\<rparr>"

definition rate :: "nat \<Rightarrow> nat \<Rightarrow> rat" where
  "rate cnt n = of_nat cnt / of_nat n * 100"

definition getPerformanceSummary_try ::
  "env \<Rightarrow> db \<Rightarrow> iso_date option \<Rightarrow> iso_date option \<Rightarrow> string + PerformanceSummary" where
  "getPerformanceSummary_try e d startDate endDate =
     (case getCurrentUser e of
        Inl msg \<Rightarrow> Inl msg
      | Inr uid \<Rightarrow>
          if QTasksSummary \<in> down e then Inl ''Failed to fetch performance summary''
          else
            (let ts = select_tasks e d uid startDate endDate;
                 n = length ts
             in if n = 0 then Inr empty_summary
                else
                  (let on_time_count = length (filter delivered_on_time ts);
                       manager_issues_count = length (filter manager_found_issues ts);
                       manager_helped_count = length (filter manager_helped_analysis ts);
                       r = getOverallSkillAverages e d
                   in Inr
                     \<lparr>total_tasks = n,
                      overall_average =
                        (if 0 < length (all_skills r)
                         then sum_list (map average_rating (all_skills r))
                              / of_nat (length (all_skills r))
                         else 0),
                      skill_averages = all_skills r,
                      summary_strengths = strengths r,
                      summary_growth_opportunities = growth_opportunities r,
                      on_time_delivery_rate = rate on_time_count n,
                      manager_issues_rate = rate manager_issues_count n,
                      manager_helped_rate = rate manager_helped_count n\<rparr>)))"

definition getPerformanceSummary ::
  "env \<Rightarrow> db \<Rightarrow> iso_date option \<Rightarrow> iso_date option \<Rightarrow> PerformanceSummary" where
  "getPerformanceSummary e d startDate endDate =
     try_catch (getPerformanceSummary_try e d startDate endDate) empty_summary"

section \<open>Statements on the tables (DATABASE_SETUP.md)\<close>

text \<open>
  A statement that fails leaves the tables as they were (\<open>None\<close>). The constraints a row
  of the model can violate are written out: the lengths of the VARCHAR columns, the primary
  key and the INSERT policy of \<open>tasks\<close>, and for \<open>skill_ratings\<close> the CHECK on the rating,
  the two foreign keys, UNIQUE(task_id, skill_id) and the INSERT policy.
\<close>

definition task_row_ok :: "Task \<Rightarrow> bool" where
  "task_row_ok t =
     (length (title t) \<le> 255 \<and>
      (case external_link t of None \<Rightarrow> True | Some l \<Rightarrow> length l \<le> 500))"

definition insert_task :: "env \<Rightarrow> db \<Rightarrow> Task \<Rightarrow> db option" where
  "insert_task e d t =
     (if QInsertTask \<notin> down e \<and> task_row_ok t \<and> t_id t \<notin> t_id ` set (tasks d)
         \<and> task_policy e t
      then Some (d\<lparr>tasks := tasks d @ [t]\<rparr>)
      else None)"

definition rating_row_ok :: "env \<Rightarrow> db \<Rightarrow> SkillRating \<Rightarrow> bool" where
  "rating_row_ok e d r =
     (1 \<le> rating r \<and> rating r \<le> 5 \<and>
      find_skill d (skill_id r) \<noteq> None \<and>
      (case find_task d (task_id r) of None \<Rightarrow> False | Some t \<Rightarrow> task_policy e t) \<and>
      (task_id r, skill_id r) \<notin> (\<lambda>x. (task_id x, skill_id x)) ` set (skill_ratings d))"

text \<open>One INSERT of several rows: all of them are stored or none.\<close>

definition insert_ratings :: "env \<Rightarrow> db \<Rightarrow> SkillRating list \<Rightarrow> db option" where
  "insert_ratings e d rs =
     (if QInsertRatings \<notin> down e \<and> list_all (rating_row_ok e d) rs
         \<and> distinct (map (\<lambda>x. (task_id x, skill_id x)) rs)
      then Some (d\<lparr>skill_ratings := skill_ratings d @ rs\<rparr>)
      else None)"

text \<open>
  \<open>delete from tasks where id = k\<close>: under the DELETE policy only a task of the session's
  user is removed; the ratings of a removed task go with it (ON DELETE CASCADE).
\<close>

definition delete_task :: "env \<Rightarrow> db \<Rightarrow> string \<Rightarrow> db option" where
  "delete_task e d k =
     (if QDeleteTask \<in> down e then None
      else if list_ex (\<lambda>t. t_id t = k \<and> task_policy e t) (tasks d)
      then Some (d\<lparr>tasks := filter (\<lambda>t. t_id t \<noteq> k) (tasks d),
                   skill_ratings := filter (\<lambda>r. task_id r \<noteq> k) (skill_ratings d)\<rparr>)
      else Some d)"

text \<open>\<open>select user_id from tasks where id = k\<close> with \<open>.single()\<close>: an error unless one row.\<close>

definition select_owner :: "env \<Rightarrow> db \<Rightarrow> string \<Rightarrow> string option" where
  "select_owner e d k =
     (if QSelectOwner \<in> down e then None
      else (case filter (\<lambda>t. t_id t = k \<and> task_policy e t) (tasks d) of
              [t] \<Rightarrow> Some (user_id t)
            | _ \<Rightarrow> None))"

definition or_null :: "string option \<Rightarrow> string option" where
  "or_null x = (case x of None \<Rightarrow> None | Some s \<Rightarrow> if s = [] then None else Some s)"

definition apply_form :: "TaskSubmissionFormData \<Rightarrow> Task \<Rightarrow> Task" where
  "apply_form f t =
     t\<lparr>title := f_title f, description := f_description f, task_date := f_task_date f,
       external_link := or_null (f_external_link f), priority := f_priority f,
       delivered_on_time := f_delivered_on_time f,
       manager_found_issues := f_manager_found_issues f,
       manager_notes := or_null (f_manager_notes f),
       manager_helped_analysis := f_manager_helped_analysis f\<rparr>"

definition update_task :: "env \<Rightarrow> db \<Rightarrow> string \<Rightarrow> TaskSubmissionFormData \<Rightarrow> db option" where
  "update_task e d k f =
     (if QUpdateTask \<notin> down e
         \<and> list_all (\<lambda>t. if t_id t = k \<and> task_policy e t then task_row_ok (apply_form f t) else True)
               (tasks d)
      then Some (d\<lparr>tasks := map (\<lambda>t. if t_id t = k \<and> task_policy e t then apply_form f t else t)
                                (tasks d)\<rparr>)
      else None)"

text \<open>
  \<open>delete from skill_ratings where task_id = k\<close>, under the DELETE policy; the code does
  not look at the outcome, so a failure is the unchanged tables.
\<close>

definition delete_ratings :: "env \<Rightarrow> db \<Rightarrow> string \<Rightarrow> db" where
  "delete_ratings e d k =
     (if QDeleteRatings \<in> down e then d
      else d\<lparr>skill_ratings :=
               filter (\<lambda>r. \<not> (task_id r = k \<and>
                          (case find_task d (task_id r) of
                             None \<Rightarrow> False
                           | Some t \<Rightarrow> task_policy e t)))
                 (skill_ratings d)\<rparr>)"

section \<open>Task actions (\<open>getAllSkills\<close>, \<open>submitTask\<close>, \<open>updateTask\<close>, \<open>deleteTask\<close>)\<close>

definition getAllSkills :: "env \<Rightarrow> db \<Rightarrow> string + Skill list" where
  "getAllSkills e d =
     (if QGetAllSkills \<in> down e then Inl ''Failed to fetch skills''
      else Inr (sort_key s_name (filter is_active (skills d))))"

definition new_task :: "string \<Rightarrow> string \<Rightarrow> TaskSubmissionFormData \<Rightarrow> Task" where
  "new_task k uid f =
     \<lparr>t_id = k, user_id = uid, title = f_title f, description = f_description f,
      task_date = f_task_date f, external_link = or_null (f_external_link f),
      priority = f_priority f, delivered_on_time = f_delivered_on_time f,
      manager_found_issues = f_manager_found_issues f,
      manager_notes = or_null (f_manager_notes f),
      manager_helped_analysis = f_manager_helped_analysis f\<rparr>"

definition ratingsToInsert :: "string \<Rightarrow> TaskSubmissionFormData \<Rightarrow> SkillRating list" where
  "ratingsToInsert k f =
     map (\<lambda>(sid, v). \<lparr>task_id = k, skill_id = sid, rating = v\<rparr>) (f_skill_ratings f)"

text \<open>
  The result of a write action is \<open>{ error: message }\<close> (\<open>Inl\<close>) or \<open>{ success: true, ... }\<close>
  (\<open>Inr\<close>), together with the tables it leaves. An error thrown by \<open>getCurrentUser\<close> or
  \<open>getAllSkills\<close> is caught and returned as \<open>{ error: error.message }\<close>; both are thrown
  before any write.
\<close>

definition submitTask :: "env \<Rightarrow> db \<Rightarrow> TaskSubmissionFormData \<Rightarrow> (string + Task) \<times> db" where
  "submitTask e d formData =
     (case getCurrentUser e of
        Inl msg \<Rightarrow> (Inl msg, d)
      | Inr uid \<Rightarrow>
          (case getAllSkills e d of
             Inl msg \<Rightarrow> (Inl msg, d)
           | Inr sk \<Rightarrow>
               if length (f_skill_ratings formData) \<noteq> length sk
               then (Inl ''All skills must be rated'', d)
               else
                 (case insert_task e d (new_task (new_task_id e) uid formData) of
                    None \<Rightarrow> (Inl ''Failed to create task'', d)
                  | Some d1 \<Rightarrow>
                      (case insert_ratings e d1 (ratingsToInsert (new_task_id e) formData) of
                         None \<Rightarrow>
                           (Inl ''Failed to save skill ratings'',
                            (case delete_task e d1 (new_task_id e) of
                               None \<Rightarrow> d1
                             | Some d2 \<Rightarrow> d2))
                       | Some d2 \<Rightarrow> (Inr (new_task (new_task_id e) uid formData), d2)))))"

definition updateTask ::
  "env \<Rightarrow> db \<Rightarrow> string \<Rightarrow> TaskSubmissionFormData \<Rightarrow> (string + unit) \<times> db" where
  "updateTask e d taskId formData =
     (case getCurrentUser e of
        Inl msg \<Rightarrow> (Inl msg, d)
      | Inr uid \<Rightarrow>
          (case select_owner e d taskId of
             None \<Rightarrow> (Inl ''Task not found'', d)
           | Some owner \<Rightarrow>
               if owner \<noteq> uid then (Inl ''Not authorized to update this task'', d)
               else
                 (case getAllSkills e d of
                    Inl msg \<Rightarrow> (Inl msg, d)
                  | Inr sk \<Rightarrow>
                      if length (f_skill_ratings formData) \<noteq> length sk
                      then (Inl ''All skills must be rated'', d)
                      else
                        (case update_task e d taskId formData of
                           None \<Rightarrow> (Inl ''Failed to update task'', d)
                         | Some d1 \<Rightarrow>
                             (let d2 = delete_ratings e d1 taskId
                              in case insert_ratings e d2 (ratingsToInsert taskId formData) of
                                   None \<Rightarrow> (Inl ''Failed to update skill ratings'', d2)
                                 | Some d3 \<Rightarrow> (Inr (), d3))))))"

definition deleteTask :: "env \<Rightarrow> db \<Rightarrow> string \<Rightarrow> (string + unit) \<times> db" where
  "deleteTask e d taskId =
     (case getCurrentUser e of
        Inl msg \<Rightarrow> (Inl msg, d)
      | Inr uid \<Rightarrow>
          (case select_owner e d taskId of
             None \<Rightarrow> (Inl ''Task not found'', d)
           | Some owner \<Rightarrow>
               if owner \<noteq> uid then (Inl ''Not authorized to delete this task'', d)
               else
                 (case delete_task e d taskId of
                    None \<Rightarrow> (Inl ''Failed to delete task'', d)
                  | Some d1 \<Rightarrow> (Inr (), d1))))"

section \<open>Task actions (\<open>getUserTasks\<close>, \<open>getTaskById\<close>)\<close>

text \<open>A task with its embedded ratings and their skills, and the mean of the ratings.\<close>

definition with_details :: "env \<Rightarrow> db \<Rightarrow> Task \<Rightarrow> TaskWithDetails" where
  "with_details e d t =
     (let rs = filter (\<lambda>r. task_id r = t_id t) (skill_ratings d)
      in \<lparr>task = t,
          ratings_with_skill = map (\<lambda>r. (r, embedded_skill e d (skill_id r))) rs,
          twd_average_rating =
            (if 0 < length rs then of_int (sum_list (map rating rs)) / of_nat (length rs)
             else 0)\<rparr>)"

text \<open>
  \<open>.order('task_date', { ascending: false }).range(offset, offset + limit - 1)\<close>; rows of
  one date are taken in the order of the table, and a \<open>limit\<close> of 0 selects nothing.
\<close>

definition page_of :: "nat \<Rightarrow> nat \<Rightarrow> Task list \<Rightarrow> Task list" where
  "page_of limit offset ts =
     take limit (drop offset
       (array_sort (\<lambda>a b. localeCompare (task_date b) (task_date a)) ts))"

definition getUserTasks_try ::
  "env \<Rightarrow> db \<Rightarrow> string option \<Rightarrow> nat \<Rightarrow> nat \<Rightarrow> string + TaskWithDetails list" where
  "getUserTasks_try e d userId limit offset =
     (case getCurrentUser e of
        Inl msg \<Rightarrow> Inl msg
      | Inr uid \<Rightarrow>
          (let targetUserId = (case or_null userId of None \<Rightarrow> uid | Some u \<Rightarrow> u)
           in if targetUserId \<noteq> uid then Inl ''Not authorized to view these tasks''
              else if QListTasks \<in> down e then Inl ''Failed to fetch tasks''
              else Inr (map (with_details e d)
                     (page_of limit offset
                        (filter (\<lambda>t. user_id t = targetUserId \<and> task_policy e t) (tasks d))))))"

definition getUserTasks ::
  "env \<Rightarrow> db \<Rightarrow> string option \<Rightarrow> nat \<Rightarrow> nat \<Rightarrow> TaskWithDetails list" where
  "getUserTasks e d userId limit offset = try_catch (getUserTasks_try e d userId limit offset) []"

definition getTaskById_try :: "env \<Rightarrow> db \<Rightarrow> string \<Rightarrow> string + TaskWithDetails option" where
  "getTaskById_try e d taskId =
     (case getCurrentUser e of
        Inl msg \<Rightarrow> Inl msg
      | Inr uid \<Rightarrow>
          if QGetTask \<in> down e then Inr None
          else (case filter (\<lambda>t. t_id t = taskId \<and> task_policy e t) (tasks d) of
                  [t] \<Rightarrow>
                    if user_id t \<noteq> uid then Inl ''Not authorized to view this task''
                    else Inr (Some (with_details e d t))
                | _ \<Rightarrow> Inr None))"

definition getTaskById :: "env \<Rightarrow> db \<Rightarrow> string \<Rightarrow> TaskWithDetails option" where
  "getTaskById e d taskId = try_catch (getTaskById_try e d taskId) None"

section \<open>Example data\<close>

text \<open>
  Two users, Alice with two tasks and Bob with one. Three skills are active; \<open>Mentoring\<close>
  was added after Alice's first task, and \<open>Legacy\<close> has been deactivated. The remote
  procedure is not installed, as after the setup of DATABASE_SETUP.md, so the overall
  averages take the manual query. The server clock is UTC, and the request is made on
  2024-04-01.
\<close>

definition ex_skills :: "Skill list" where
  "ex_skills =
     [\<lparr>s_id = ''s1'', s_name = ''Testing'', is_active = True\<rparr>,
      \<lparr>s_id = ''s2'', s_name = ''Analysis'', is_active = True\<rparr>,
      \<lparr>s_id = ''s3'', s_name = ''Mentoring'', is_active = True\<rparr>,
      \<lparr>s_id = ''s4'', s_name = ''Legacy'', is_active = False\<rparr>]"

definition ex_task :: "string \<Rightarrow> string \<Rightarrow> iso_date \<Rightarrow> bool \<Rightarrow> Task" where
  "ex_task k uid dt on_time =
     \<lparr>t_id = k, user_id = uid, title = ''Fix'', description = ''Bug'', task_date = dt,
      external_link = None, priority = medium, delivered_on_time = on_time,
      manager_found_issues = False, manager_notes = None, manager_helped_analysis = False\<rparr>"

definition ex_rating :: "string \<Rightarrow> string \<Rightarrow> int \<Rightarrow> SkillRating" where
  "ex_rating k sid v = \<lparr>task_id = k, skill_id = sid, rating = v\<rparr>"

definition ex_db :: db where
  "ex_db =
     \<lparr>skills = ex_skills,
      tasks = [ex_task ''t1'' ''alice'' (2024, 1, 10) True,
               ex_task ''t2'' ''alice'' (2024, 3, 10) False,
               ex_task ''t3'' ''bob'' (2024, 3, 11) True],
      skill_ratings =
        [ex_rating ''t1'' ''s1'' 4, ex_rating ''t1'' ''s2'' 4,
         ex_rating ''t2'' ''s1'' 2, ex_rating ''t2'' ''s2'' 2, ex_rating ''t2'' ''s3'' 3,
         ex_rating ''t3'' ''s1'' 5, ex_rating ''t3'' ''s2'' 4, ex_rating ''t3'' ''s3'' 3]\<rparr>"

definition ex_env :: "string option \<Rightarrow> bool \<Rightarrow> query set \<Rightarrow> env" where
  "ex_env who secured failing =
     \<lparr>session = who, rls = secured, down = failing, rpc_overall = (\<lambda>uid. None),
      embed_arrays = False, new_task_id = ''t4'', tza = 0, now = Date_parse (2024, 4, 1)\<rparr>"

definition ex_average :: "string \<Rightarrow> string \<Rightarrow> rat \<Rightarrow> nat \<Rightarrow> int \<Rightarrow> int \<Rightarrow> SkillAverage" where
  "ex_average k nm avg cnt lo hi =
     \<lparr>sa_skill_id = k, sa_skill_name = nm, average_rating = avg, rating_count = cnt,
      min_rating = lo, max_rating = hi\<rparr>"

text \<open>
  The same tables with other ratings for Alice: Testing 5 and Analysis 2 on both tasks,
  Mentoring 5 on the second.
\<close>

definition ex_db_uneven :: db where
  "ex_db_uneven =
     ex_db\<lparr>skill_ratings :=
        [ex_rating ''t1'' ''s1'' 5, ex_rating ''t1'' ''s2'' 2,
         ex_rating ''t2'' ''s1'' 5, ex_rating ''t2'' ''s2'' 2, ex_rating ''t2'' ''s3'' 5,
         ex_rating ''t3'' ''s1'' 5, ex_rating ''t3'' ''s2'' 4, ex_rating ''t3'' ''s3'' 3]\<rparr>"

text \<open>The same request when the remote procedure is installed and returns six averages.\<close>

definition ex_six :: "SkillAverage list" where
  "ex_six =
     [ex_average ''s3'' ''Mentoring'' 3 1 3 3, ex_average ''s1'' ''Testing'' 5 2 5 5,
      ex_average ''s5'' ''QA'' 1 1 1 1, ex_average ''s2'' ''Analysis'' 4 2 4 4,
      ex_average ''s6'' ''English'' 2 1 2 2, ex_average ''s7'' ''Planning'' (9 / 2) 2 4 5]"

definition ex_env_rpc :: env where
  "ex_env_rpc = (ex_env (Some ''alice'') True {})\<lparr>rpc_overall := (\<lambda>uid. Some ex_six)\<rparr>"

definition ex_form :: "(string \<times> int) list \<Rightarrow> TaskSubmissionFormData" where
  "ex_form rs =
     \<lparr>f_title = ''Review'', f_description = ''PR'', f_task_date = (2024, 3, 20),
      f_external_link = None, f_priority = high, f_delivered_on_time = True,
      f_manager_found_issues = False, f_manager_notes = None,
      f_manager_helped_analysis = False, f_skill_ratings = rs\<rparr>"

section \<open>The specification's own words, for comparison\<close>

text \<open>
  The order the specification asks of the list of averages: mean descending, ties broken by
  higher count first, then by skill name ascending.
\<close>

definition spec_order :: "SkillAverage \<Rightarrow> SkillAverage \<Rightarrow> bool" where
  "spec_order a b =
     (average_rating b < average_rating a \<or>
      (average_rating a = average_rating b \<and>
         (rating_count b < rating_count a \<or>
          (rating_count a = rating_count b \<and> sa_skill_name a \<le> sa_skill_name b))))"

text \<open>
  The averages the specification asks of the summary: those of the observations of the tasks
  that pass the date filter.
\<close>

definition period_skill_averages ::
  "env \<Rightarrow> db \<Rightarrow> string \<Rightarrow> iso_date option \<Rightarrow> iso_date option \<Rightarrow> OverallAverages" where
  "period_skill_averages e d uid startDate endDate =
     rank_skills (map to_average
       (fold skillMap_add (select_ratings e d uid (in_period startDate endDate)) []))"

text \<open>
  The ratings behind the overall averages, one list for each skill, as the manual query
  groups them.
\<close>

definition observation_groups :: "env \<Rightarrow> db \<Rightarrow> string \<Rightarrow> int list list" where
  "observation_groups e d uid =
     map (\<lambda>(k, rs, nm). rs) (fold skillMap_add (select_ratings e d uid (\<lambda>dt. True)) [])"

section \<open>Properties of the sort and of the ranking\<close>

lemma insert_by_insort:
  "insert_by (\<lambda>a b. average_rating b - average_rating a) x ys =
     insort_key (\<lambda>a. - average_rating a) x ys"
  by (induction ys) auto

lemma array_sort_sort_key:
  "array_sort (\<lambda>a b. average_rating b - average_rating a) xs =
     sort_key (\<lambda>a. - average_rating a) xs"
  by (induction xs) (simp_all add: array_sort_def insert_by_insort)

lemma rank_skills_Nil: "rank_skills [] = empty_overall"
  by (simp add: rank_skills_def empty_overall_def array_sort_def slice_first5_def
      slice_last5_def)

lemma getOverallSkillAverages_rank:
  "getOverallSkillAverages e d = rank_skills (unsorted_all_skills e d)"
  by (simp add: getOverallSkillAverages_def getOverallSkillAverages_try_def try_catch_def
      unsorted_all_skills_def getCurrentUser_def
      rank_skills_Nil split: option.splits)

lemma all_skills_rank:
  "all_skills (rank_skills xs) = sort_key (\<lambda>a. - average_rating a) xs"
  by (simp add: rank_skills_def Let_def array_sort_sort_key)

lemma strengths_rank: "strengths (rank_skills xs) = take 5 (all_skills (rank_skills xs))"
  by (simp add: rank_skills_def Let_def slice_first5_def)

lemma growth_rank:
  "growth_opportunities (rank_skills xs) =
     rev (drop (length (all_skills (rank_skills xs)) - 5) (all_skills (rank_skills xs)))"
  by (simp add: rank_skills_def Let_def slice_last5_def)

lemma sorted_desc_sort_key:
  "sorted_wrt (\<lambda>a b. average_rating b \<le> average_rating a)
     (sort_key (\<lambda>a. - average_rating a) xs)"
proof -
  have "sorted (map (\<lambda>a. - average_rating a) (sort_key (\<lambda>a. - average_rating a) xs))"
    by (rule sorted_sort_key)
  then show ?thesis
    by (simp add: sorted_wrt_map)
qed

section \<open>Auxiliary facts\<close>

lemma summary_long_path:
  assumes "skill_averages (getPerformanceSummary e d s t) \<noteq> []"
  shows "skill_averages (getPerformanceSummary e d s t) = all_skills (getOverallSkillAverages e d) \<and>
         overall_average (getPerformanceSummary e d s t) =
           sum_list (map average_rating (all_skills (getOverallSkillAverages e d)))
             / of_nat (length (all_skills (getOverallSkillAverages e d)))"
  using assms
  by (auto simp: getPerformanceSummary_def getPerformanceSummary_try_def try_catch_def
      getCurrentUser_def empty_summary_def Let_def split: option.splits if_splits)

lemma filter_unique_key:
  "distinct (map f xs) \<Longrightarrow> t \<in> set xs \<Longrightarrow> filter (\<lambda>x. f x = f t) xs = [t]"
proof (induction xs)
  case Nil
  then show ?case by simp
next
  case (Cons x xs)
  show ?case
  proof (cases "x = t")
    case True
    with Cons.prems have "\<forall>y\<in>set xs. f y \<noteq> f t"
      by (auto simp: image_iff)
    then have "filter (\<lambda>y. f y = f t) xs = []"
      by (simp add: filter_empty_conv)
    with True show ?thesis by simp
  next
    case False
    with Cons.prems have "t \<in> set xs" and "f x \<noteq> f t" and "distinct (map f xs)"
      by (auto simp: image_iff)
    with Cons.IH show ?thesis by simp
  qed
qed

lemma visible_rows_of_foreign_task:
  assumes "session e = Some uid" and "t \<in> set (tasks d)" and "user_id t \<noteq> uid"
    and "distinct (map t_id (tasks d))"
  shows "filter (\<lambda>x. t_id x = t_id t \<and> task_policy e x) (tasks d) = (if rls e then [] else [t])"
proof -
  have "filter (\<lambda>x. t_id x = t_id t \<and> task_policy e x) (tasks d) =
          filter (task_policy e) (filter (\<lambda>x. t_id x = t_id t) (tasks d))"
    by (simp add: conj_commute)
  also have "\<dots> = filter (task_policy e) [t]"
    using assms(2,4) by (simp add: filter_unique_key)
  also have "\<dots> = (if rls e then [] else [t])"
    using assms(1,3) by (auto simp: task_policy_def)
  finally show ?thesis .
qed

lemma select_owner_foreign:
  assumes "session e = Some uid" and "t \<in> set (tasks d)" and "user_id t \<noteq> uid"
    and "distinct (map t_id (tasks d))"
  shows "select_owner e d (t_id t) =
           (if rls e \<or> QSelectOwner \<in> down e then None else Some (user_id t))"
  by (simp add: select_owner_def visible_rows_of_foreign_task [OF assms])

lemma find_in_set: "find P xs = Some x \<Longrightarrow> x \<in> set xs"
  by (induction xs) (auto split: if_splits)

lemma select_ratings_no_tasks:
  assumes "list_all (\<lambda>x. user_id x \<noteq> uid) (tasks d)"
  shows "select_ratings e d uid in_range = []"
proof -
  have "find_task d k = Some x \<Longrightarrow> user_id x \<noteq> uid" for k x
    using assms by (auto simp: find_task_def list_all_iff dest: find_in_set)
  then show ?thesis
    by (auto simp: select_ratings_def split: option.splits)
qed

lemma select_tasks_no_tasks:
  assumes "list_all (\<lambda>x. user_id x \<noteq> uid) (tasks d)"
  shows "select_tasks e d uid startDate endDate = []"
  using assms by (auto simp: select_tasks_def list_all_iff filter_empty_conv)

lemma build_trends_Nil: "build_trends key [] = []"
  by (simp add: build_trends_def array_sort_def)

lemma unauthenticated_results:
  assumes "session e = None"
  shows "getOverallSkillAverages e d = empty_overall"
    and "getWeeklySkillTrends e d w = []"
    and "getMonthlySkillTrends e d m = []"
    and "getPerformanceSummary e d s t = empty_summary"
  using assms
  by (simp_all add: getOverallSkillAverages_def getOverallSkillAverages_try_def
      getWeeklySkillTrends_def getWeeklySkillTrends_try_def getMonthlySkillTrends_def
      getMonthlySkillTrends_try_def getPerformanceSummary_def getPerformanceSummary_try_def
      try_catch_def getCurrentUser_def)

lemma range_query_down:
  assumes "QRatingsRange \<in> down e"
  shows "getWeeklySkillTrends e d w = []" and "getMonthlySkillTrends e d m = []"
  using assms
  by (simp_all add: getWeeklySkillTrends_def getWeeklySkillTrends_try_def
      getMonthlySkillTrends_def getMonthlySkillTrends_try_def try_catch_def Let_def
      split: sum.splits)

lemma tasks_query_down:
  assumes "QTasksSummary \<in> down e"
  shows "getPerformanceSummary e d s t = empty_summary"
  using assms
  by (simp add: getPerformanceSummary_def getPerformanceSummary_try_def try_catch_def
      split: sum.splits)

lemma overall_queries_down:
  assumes "session e = Some uid" and "rpc_overall e uid = None" and "QRatingsAllTime \<in> down e"
  shows "getOverallSkillAverages e d = empty_overall"
  using assms
  by (simp add: getOverallSkillAverages_def getOverallSkillAverages_try_def try_catch_def
      getCurrentUser_def)

lemma no_data_results:
  assumes "session e = Some uid" and "list_all (\<lambda>x. user_id x \<noteq> uid) (tasks d)"
    and "rpc_overall e uid = None \<or> rpc_overall e uid = Some []"
  shows "getOverallSkillAverages e d = empty_overall"
    and "getWeeklySkillTrends e d w = []"
    and "getMonthlySkillTrends e d m = []"
    and "getPerformanceSummary e d s t = empty_summary"
proof -
  note none = select_ratings_no_tasks [OF assms(2)]
  from assms(1,3) show "getOverallSkillAverages e d = empty_overall"
    by (auto simp: getOverallSkillAverages_def getOverallSkillAverages_try_def try_catch_def
        getCurrentUser_def none rank_skills_Nil)
  from assms(1) show "getWeeklySkillTrends e d w = []"
    by (simp add: getWeeklySkillTrends_def getWeeklySkillTrends_try_def try_catch_def
        getCurrentUser_def none build_trends_Nil Let_def)
  from assms(1) show "getMonthlySkillTrends e d m = []"
    by (simp add: getMonthlySkillTrends_def getMonthlySkillTrends_try_def try_catch_def
        getCurrentUser_def none build_trends_Nil Let_def)
  from assms(1) show "getPerformanceSummary e d s t = empty_summary"
    by (simp add: getPerformanceSummary_def getPerformanceSummary_try_def try_catch_def
        getCurrentUser_def select_tasks_no_tasks [OF assms(2)])
qed

lemma nested_failure_result:
  assumes "session e = Some uid" and "QTasksSummary \<notin> down e"
    and "select_tasks e d uid s t \<noteq> []"
    and "rpc_overall e uid = None" and "QRatingsAllTime \<in> down e"
  shows "getPerformanceSummary e d s t =
           \<lparr>total_tasks = length (select_tasks e d uid s t), overall_average = 0,
            skill_averages = [], summary_strengths = [], summary_growth_opportunities = [],
            on_time_delivery_rate =
              rate (length (filter delivered_on_time (select_tasks e d uid s t)))
                (length (select_tasks e d uid s t)),
            manager_issues_rate =
              rate (length (filter manager_found_issues (select_tasks e d uid s t)))
                (length (select_tasks e d uid s t)),
            manager_helped_rate =
              rate (length (filter manager_helped_analysis (select_tasks e d uid s t)))
                (length (select_tasks e d uid s t))\<rparr>"
  using assms
  by (simp add: getPerformanceSummary_def getPerformanceSummary_try_def try_catch_def
      getCurrentUser_def Let_def overall_queries_down [OF assms(1,4,5)] empty_overall_def)

lemma summary_skill_lists_are_all_time:
  assumes "session e = Some uid" and "QTasksSummary \<notin> down e"
    and "select_tasks e d uid s t \<noteq> []"
  shows "skill_averages (getPerformanceSummary e d s t) =
           all_skills (getOverallSkillAverages e d)"
    and "summary_strengths (getPerformanceSummary e d s t) =
           strengths (getOverallSkillAverages e d)"
    and "summary_growth_opportunities (getPerformanceSummary e d s t) =
           growth_opportunities (getOverallSkillAverages e d)"
  using assms
  by (simp_all add: getPerformanceSummary_def getPerformanceSummary_try_def try_catch_def
      getCurrentUser_def Let_def)

lemma submitTask_rolls_back:
  assumes "fst (submitTask e d f) = Inl msg" and "QDeleteTask \<notin> down e"
    and "list_all (\<lambda>r. task_id r \<in> t_id ` set (tasks d)) (skill_ratings d)"
  shows "snd (submitTask e d f) = d"
proof (cases "getCurrentUser e")
  case (Inl m)
  then show ?thesis by (simp add: submitTask_def)
next
  case (Inr uid)
  let ?t = "new_task (new_task_id e) uid f"
  show ?thesis
  proof (cases "insert_task e d ?t")
    case None
    with Inr show ?thesis
      by (simp add: submitTask_def split: sum.splits)
  next
    case (Some d1)
    then have d1: "d1 = d\<lparr>tasks := tasks d @ [?t]\<rparr>"
      and fresh: "new_task_id e \<notin> t_id ` set (tasks d)" and vis: "task_policy e ?t"
      by (auto simp: insert_task_def new_task_def split: if_splits)
    from fresh have other: "\<forall>x\<in>set (tasks d). t_id x \<noteq> new_task_id e"
      by (metis imageI)
    then have keep: "filter (\<lambda>x. t_id x \<noteq> new_task_id e) (tasks d) = tasks d"
      by (simp add: filter_id_conv)
    from fresh assms(3) have "\<forall>r\<in>set (skill_ratings d). task_id r \<noteq> new_task_id e"
      unfolding list_all_iff by metis
    then have keep_r:
      "filter (\<lambda>r. task_id r \<noteq> new_task_id e) (skill_ratings d) = skill_ratings d"
      by (simp add: filter_id_conv)
    have del: "delete_task e d1 (new_task_id e) = Some d"
      using assms(2) vis
      by (simp add: delete_task_def d1 keep keep_r new_task_def)
    from Inr Some assms(1) show ?thesis
      by (auto simp: submitTask_def del split: sum.splits if_splits option.splits)
  qed
qed

lemma push_rating_nonempty:
  "list_all (\<lambda>(k, rs, nm). k = sid \<or> rs \<noteq> []) m \<Longrightarrow>
   list_all (\<lambda>(k, rs, nm). rs \<noteq> []) (push_rating m sid v)"
  by (auto simp: push_rating_def list_all_iff split: if_splits)

lemma skillMap_add_nonempty:
  assumes "list_all (\<lambda>(k, rs, nm). rs \<noteq> []) m"
  shows "list_all (\<lambda>(k, rs, nm). rs \<noteq> []) (skillMap_add item m)"
proof -
  have weak: "list_all (\<lambda>(k, rs, nm). k = sid \<or> rs \<noteq> []) (m @ extra)"
    if "list_all (\<lambda>(k, rs, nm). k = sid) extra" for sid extra
    using assms that by (auto simp: list_all_iff)
  show ?thesis
  proof (cases "unwrap (row_skill item)")
    case None
    with assms show ?thesis by (simp add: skillMap_add_def)
  next
    case (Some p)
    obtain sid nm where p: "p = (sid, nm)" by (cases p)
    from weak [of sid "[]"] weak [of sid "[(sid, [], nm)]"] assms Some p
    show ?thesis
      by (auto simp: skillMap_add_def intro!: push_rating_nonempty)
  qed
qed

lemma skillMap_fold_nonempty:
  "list_all (\<lambda>(k, rs, nm). rs \<noteq> []) m \<Longrightarrow>
   list_all (\<lambda>(k, rs, nm). rs \<noteq> []) (fold skillMap_add rows m)"
  by (induction rows arbitrary: m) (simp_all add: skillMap_add_nonempty)

lemma skillMap_entries_nonempty:
  "list_all (\<lambda>(k, rs, nm). rs \<noteq> []) (fold skillMap_add rows [])"
  by (rule skillMap_fold_nonempty) simp

lemma validation_compares_sizes:
  assumes "session e = Some uid" and "QGetAllSkills \<notin> down e"
  shows "(fst (submitTask e d f) = Inl ''All skills must be rated'') =
           (length (f_skill_ratings f) \<noteq> length (filter is_active (skills d)))"
    and "select_owner e d k = Some uid \<Longrightarrow>
         (fst (updateTask e d k f) = Inl ''All skills must be rated'') =
           (length (f_skill_ratings f) \<noteq> length (filter is_active (skills d)))"
  using assms
  by (auto simp: submitTask_def updateTask_def getCurrentUser_def getAllSkills_def Let_def
      split: option.splits)

subsection \<open>The calendar\<close>

lemma div_bounds:
  fixes a k :: int
  assumes "0 < k"
  shows "k * (a div k) \<le> a" and "a < k * (a div k) + k"
proof -
  have "k * (a div k) = a - a mod k"
    by (simp add: minus_mod_eq_mult_div)
  moreover from assms have "0 \<le> a mod k" and "a mod k < k"
    by simp_all
  ultimately show "k * (a div k) \<le> a" and "a < k * (a div k) + k"
    by linarith+
qed

lemma DayFromYear_upper: "400 * DayFromYear y \<le> 146097 * y - 287810501"
  using div_bounds [of 4 "y - 1969"] div_bounds [of 100 "y - 1901"] div_bounds [of 400 "y - 1601"]
  unfolding DayFromYear_def by simp

lemma DayFromYear_lower: "146097 * y - 287811596 \<le> 400 * DayFromYear y"
  using div_bounds [of 4 "y - 1969"] div_bounds [of 100 "y - 1901"] div_bounds [of 400 "y - 1601"]
  unfolding DayFromYear_def by simp

lemma DayFromYear_strict_mono:
  assumes "y < y'"
  shows "DayFromYear y < DayFromYear y'"
proof -
  from assms have "y + 1 \<le> y'" by simp
  with DayFromYear_upper [of y] DayFromYear_lower [of y']
  have "400 * DayFromYear y < 400 * DayFromYear y'"
    by linarith
  then show ?thesis by simp
qed

lemma year_of_day_bounds:
  "DayFromYear (year_of_day d) \<le> d \<and> d < DayFromYear (year_of_day d + 1)"
proof -
  define z where "z = (400 * d) div 146097"
  have z: "146097 * z \<le> 400 * d" "400 * d < 146097 * z + 146097"
    unfolding z_def using div_bounds [of 146097 "400 * d"] by simp_all
  have "400 * DayFromYear (1969 + z) \<le> 146097 * z - 145508"
    using DayFromYear_upper [of "1969 + z"] by (simp add: algebra_simps)
  with z have "400 * DayFromYear (1969 + z) \<le> 400 * d"
    by linarith
  then have lo: "DayFromYear (1969 + z) \<le> d"
    by simp
  have "146097 * z + 291688 \<le> 400 * DayFromYear (1972 + z)"
    using DayFromYear_lower [of "1972 + z"] by (simp add: algebra_simps)
  with z have "400 * d < 400 * DayFromYear (1972 + z)"
    by linarith
  then have hi: "d < DayFromYear (1972 + z)"
    by simp
  have y: "year_of_day d =
      (if DayFromYear (1971 + z) \<le> d then 1971 + z
       else if DayFromYear (1970 + z) \<le> d then 1970 + z else 1969 + z)"
    by (simp add: year_of_day_def Let_def z_def add.commute)
  show ?thesis
    using lo hi by (simp add: y)
qed

lemma year_of_day_largest:
  assumes "DayFromYear y \<le> d"
  shows "y \<le> year_of_day d"
proof (rule ccontr)
  assume "\<not> y \<le> year_of_day d"
  then have "year_of_day d + 1 \<le> y" by simp
  then have "DayFromYear (year_of_day d + 1) \<le> DayFromYear y"
    using DayFromYear_strict_mono [of "year_of_day d + 1" y] by (cases "year_of_day d + 1 = y") auto
  with assms year_of_day_bounds [of d] show False by linarith
qed

lemma div_succ:
  fixes a k :: int
  assumes "0 < k"
  shows "(a + 1) div k = a div k + (if k dvd a + 1 then 1 else 0)"
proof (cases "a mod k + 1 = k")
  case True
  have "a + 1 = k * (a div k) + a mod k + 1"
    by simp
  also have "\<dots> = k * (a div k) + k"
    using True by (simp only: add.assoc)
  also have "\<dots> = k * (a div k + 1)"
    by (simp add: algebra_simps)
  finally have eq: "a + 1 = k * (a div k + 1)" .
  have "(k * (a div k + 1)) div k = a div k + 1"
    using assms by simp
  then have "(a + 1) div k = a div k + 1"
    by (simp only: eq)
  moreover have "k dvd k * (a div k + 1)"
    by (rule dvd_triv_left)
  then have "k dvd a + 1"
    by (simp only: eq)
  ultimately show ?thesis by simp
next
  case False
  from assms have "0 \<le> a mod k" and "a mod k < k"
    by simp_all
  with False have r: "0 \<le> a mod k + 1" "a mod k + 1 < k"
    by simp_all
  have eq: "a + 1 = k * (a div k) + (a mod k + 1)"
    by simp
  have "(a + 1) div k = a div k"
    using int_div_pos_eq [OF eq r] .
  moreover have "(a + 1) mod k = a mod k + 1"
    using int_mod_pos_eq [OF eq r] .
  with \<open>0 \<le> a mod k\<close> have "(a + 1) mod k \<noteq> 0"
    by simp
  then have "\<not> k dvd a + 1"
    by (simp add: dvd_eq_mod_eq_0)
  ultimately show ?thesis by simp
qed

lemma DayFromYear_step: "DayFromYear (y + 1) = DayFromYear y + 365 + InLeapYear y"
proof -
  have d4: "(4 dvd y - 1968) = (4 dvd y)"
    using dvd_diff_left_iff [of 4 1968 y] by simp
  have d100: "(100 dvd y - 1900) = (100 dvd y)"
    using dvd_diff_left_iff [of 100 1900 y] by simp
  have d400: "(400 dvd y - 1600) = (400 dvd y)"
    using dvd_diff_left_iff [of 400 1600 y] by simp
  have s4: "(y + 1 - 1969) div 4 = (y - 1969) div 4 + (if 4 dvd y then 1 else 0)"
    using div_succ [of 4 "y - 1969"] by (simp add: d4 algebra_simps)
  have s100: "(y + 1 - 1901) div 100 = (y - 1901) div 100 + (if 100 dvd y then 1 else 0)"
    using div_succ [of 100 "y - 1901"] by (simp add: d100 algebra_simps)
  have s400: "(y + 1 - 1601) div 400 = (y - 1601) div 400 + (if 400 dvd y then 1 else 0)"
    using div_succ [of 400 "y - 1601"] by (simp add: d400 algebra_simps)
  have c1: "4 dvd y" if "100 dvd y"
    using dvd_trans [of 4 100 y] that by simp
  have c2: "100 dvd y" if "400 dvd y"
    using dvd_trans [of 100 400 y] that by simp
  have leap: "InLeapYear y =
      (if 4 dvd y then 1 else 0) - (if 100 dvd y then 1 else 0) + (if 400 dvd y then 1 else 0)"
  proof (cases "4 dvd y")
    case False
    with c1 c2 have "\<not> 100 dvd y" and "\<not> 400 dvd y"
      by blast+
    with False show ?thesis
      by (simp add: InLeapYear_def mod_eq_0_iff_dvd)
  next
    case four: True
    show ?thesis
    proof (cases "100 dvd y")
      case False
      with c2 have "\<not> 400 dvd y"
        by blast
      with four False show ?thesis
        by (simp add: InLeapYear_def mod_eq_0_iff_dvd)
    next
      case True
      with four show ?thesis
        by (simp add: InLeapYear_def mod_eq_0_iff_dvd)
    qed
  qed
  show ?thesis
    unfolding DayFromYear_def leap s4 s100 s400 by simp
qed

lemma DayWithinYear_range:
  "0 \<le> DayWithinYear t \<and> DayWithinYear t < 365 + InLeapYear (YearFromTime t)"
  using year_of_day_bounds [of "Day t"] DayFromYear_step [of "year_of_day (Day t)"]
  by (simp add: DayWithinYear_def YearFromTime_def)

lemma MonthFromTime_range: "0 \<le> MonthFromTime t \<and> MonthFromTime t \<le> 11"
  by (simp add: MonthFromTime_def Let_def)

lemma MakeDay_same_month:
  "MakeDay (YearFromTime t) (MonthFromTime t) dt = Day t - DateFromTime t + dt"
proof -
  from MonthFromTime_range [of t]
  have "MonthFromTime t div 12 = 0" and "MonthFromTime t mod 12 = MonthFromTime t"
    by simp_all
  then show ?thesis
    by (simp add: MakeDay_def DateFromTime_def DayWithinYear_def Let_def)
qed

lemma Day_MakeDate:
  assumes "0 \<le> r" and "r < msPerDay"
  shows "Day (MakeDate k r) = k" and "TimeWithinDay (MakeDate k r) = r"
  using assms by (simp_all add: Day_def MakeDate_def TimeWithinDay_def msPerDay_def)

lemma Day_Date_parse:
  "Day (Date_parse (y, m, d)) = MakeDay y (m - 1) d"
  "TimeWithinDay (Date_parse (y, m, d)) = 0"
  by (simp_all add: Date_parse_def Day_MakeDate msPerDay_def)

text \<open>
  With the server clock on UTC, \<open>weekStart\<close> is \<open>1 - getDay()\<close> days from the task date:
  always a Monday, the Monday on or before the task date from Monday to Saturday, and the
  day after the task date on a Sunday.
\<close>

lemma weekStart_utc:
  assumes "tza e = 0"
  shows "Day (weekStart e td) = Day (Date_parse td) - WeekDay (Date_parse td) + 1"
proof -
  obtain y m d where td: "td = (y, m, d)"
    by (cases td)
  let ?t = "Date_parse (y, m, d)"
  have "MakeDay (YearFromTime ?t) (MonthFromTime ?t) (DateFromTime ?t - WeekDay ?t + 1) =
          Day ?t - WeekDay ?t + 1"
    by (simp add: MakeDay_same_month)
  then have "weekStart e td = MakeDate (Day ?t - WeekDay ?t + 1) (TimeWithinDay ?t)"
    using assms
    by (simp add: weekStart_def td setDate_def getDate_def getDay_def LocalTime_def UTC_def
        Let_def)
  then show ?thesis
    by (simp add: td Day_Date_parse Day_MakeDate msPerDay_def)
qed

lemma weekStart_utc_is_monday:
  assumes "tza e = 0"
  shows "WeekDay (weekStart e td) = 1"
proof -
  define D where "D = Day (Date_parse td)"
  have "WeekDay (weekStart e td) = (D - (D + 4) mod 7 + 1 + 4) mod 7"
    by (simp add: WeekDay_def weekStart_utc [OF assms] D_def)
  also have "\<dots> = 1"
    by presburger
  finally show ?thesis .
qed

lemma weekStart_utc_sunday:
  assumes "tza e = 0" and "WeekDay (Date_parse td) = 0"
  shows "Day (weekStart e td) = Day (Date_parse td) + 1"
  using assms by (simp add: weekStart_utc)

lemma weekStart_utc_other_days:
  assumes "tza e = 0" and "WeekDay (Date_parse td) \<noteq> 0"
  shows "Day (weekStart e td) \<le> Day (Date_parse td)"
    and "Day (Date_parse td) - Day (weekStart e td) \<le> 5"
proof -
  have "0 \<le> WeekDay (Date_parse td)" and "WeekDay (Date_parse td) < 7"
    by (simp_all add: WeekDay_def)
  with assms(2) have "1 \<le> WeekDay (Date_parse td)" and "WeekDay (Date_parse td) \<le> 6"
    by simp_all
  then show "Day (weekStart e td) \<le> Day (Date_parse td)"
    and "Day (Date_parse td) - Day (weekStart e td) \<le> 5"
    by (simp_all add: weekStart_utc [OF assms(1)])
qed

section \<open>The claims\<close>

subsection \<open>C1: the key of a trend bucket\<close>

text \<open>
  C1 asks that the weekly bucket start be the Monday on or before the task date and the
  monthly one the first day of the month, whatever the time zone. The code computes
  \<open>getDate() - getDay() + 1\<close>, and \<open>getDay()\<close> is 0 on a Sunday: with the server clock
  on UTC, Sunday 2024-01-07 gets the key 2024-01-08, the Monday after it, while the Monday
  and the Saturday of its week, 2024-01-01 and 2024-01-06, get 2024-01-01. The code also
  reads the date in local time and prints the key in UTC: one hour east of UTC the month
  of 2024-03-15 gets the key 2024-02-29, and five hours west of UTC Monday 2024-01-08 gets
  2024-01-09. Lemmas \<open>weekStart_utc\<close>, \<open>weekStart_utc_sunday\<close> and
  \<open>weekStart_utc_other_days\<close> give the week start on UTC for every date.
\<close>

theorem sunday_falls_into_next_week:
  "WeekDay (Date_parse (2024, 1, 7)) = 0 \<and>
   week_key (ex_env (Some ''alice'') True {}) (2024, 1, 7) = (2024, 1, 8) \<and>
   week_key (ex_env (Some ''alice'') True {}) (2024, 1, 1) = (2024, 1, 1) \<and>
   week_key (ex_env (Some ''alice'') True {}) (2024, 1, 6) = (2024, 1, 1) \<and>
   month_key (ex_env (Some ''alice'') True {}\<lparr>tza := 3600000\<rparr>) (2024, 3, 15) = (2024, 2, 29) \<and>
   week_key (ex_env (Some ''alice'') True {}\<lparr>tza := - 18000000\<rparr>) (2024, 1, 8) = (2024, 1, 9)"
  by code_simp

subsection \<open>C2: the rating map and the active skills\<close>

text \<open>
  C2 asks that create and update fail with a validation error when the keys of the rating
  map are not the active skills. The code compares only the sizes: with the active skills
  s1, s2, s3, a map that rates s1, s2 and the deactivated s4 is accepted by
  \<open>submitTask\<close>, which stores the task and the three ratings, and by \<open>updateTask\<close>.
\<close>

theorem submit_and_update_accept_wrong_skill_set:
  "map s_id (filter is_active (skills ex_db)) = [''s1'', ''s2'', ''s3''] \<and>
   fst (submitTask (ex_env (Some ''alice'') True {}) ex_db
          (ex_form [(''s1'', 5), (''s2'', 4), (''s4'', 3)])) =
     Inr (new_task ''t4'' ''alice'' (ex_form [(''s1'', 5), (''s2'', 4), (''s4'', 3)])) \<and>
   snd (submitTask (ex_env (Some ''alice'') True {}) ex_db
          (ex_form [(''s1'', 5), (''s2'', 4), (''s4'', 3)])) =
     ex_db\<lparr>tasks := tasks ex_db @
                [new_task ''t4'' ''alice'' (ex_form [(''s1'', 5), (''s2'', 4), (''s4'', 3)])],
           skill_ratings := skill_ratings ex_db @
                [ex_rating ''t4'' ''s1'' 5, ex_rating ''t4'' ''s2'' 4, ex_rating ''t4'' ''s4'' 3]\<rparr> \<and>
   fst (updateTask (ex_env (Some ''alice'') True {}) ex_db ''t2''
          (ex_form [(''s1'', 5), (''s2'', 4), (''s4'', 3)])) = Inr () \<and>
   filter (\<lambda>r. task_id r = ''t2'')
     (skill_ratings (snd (updateTask (ex_env (Some ''alice'') True {}) ex_db ''t2''
          (ex_form [(''s1'', 5), (''s2'', 4), (''s4'', 3)])))) =
     [ex_rating ''t2'' ''s1'' 5, ex_rating ''t2'' ''s2'' 4, ex_rating ''t2'' ''s4'' 3]"
  by code_simp

subsection \<open>C3: a task and its ratings\<close>

text \<open>
  C3 asks that no task is left without its full rating set after a create or an update,
  also when it ends in an error. \<open>updateTask\<close> deletes the old ratings and then inserts
  the new ones; when that insert fails (the statement fails, or a rating violates the CHECK
  of the column) it returns the error and task t2 stays with no rating at all.
  \<open>submitTask\<close> on the same failure deletes the task row again.
\<close>

theorem failed_update_leaves_task_without_ratings:
  "fst (updateTask (ex_env (Some ''alice'') True {QInsertRatings}) ex_db ''t2''
          (ex_form [(''s1'', 5), (''s2'', 4), (''s3'', 3)])) =
     Inl ''Failed to update skill ratings'' \<and>
   map t_id (tasks (snd (updateTask (ex_env (Some ''alice'') True {QInsertRatings}) ex_db ''t2''
          (ex_form [(''s1'', 5), (''s2'', 4), (''s3'', 3)])))) = [''t1'', ''t2'', ''t3''] \<and>
   filter (\<lambda>r. task_id r = ''t2'')
     (skill_ratings (snd (updateTask (ex_env (Some ''alice'') True {QInsertRatings}) ex_db ''t2''
          (ex_form [(''s1'', 5), (''s2'', 4), (''s3'', 3)])))) = [] \<and>
   fst (updateTask (ex_env (Some ''alice'') True {}) ex_db ''t2''
          (ex_form [(''s1'', 5), (''s2'', 4), (''s3'', 9)])) =
     Inl ''Failed to update skill ratings'' \<and>
   filter (\<lambda>r. task_id r = ''t2'')
     (skill_ratings (snd (updateTask (ex_env (Some ''alice'') True {}) ex_db ''t2''
          (ex_form [(''s1'', 5), (''s2'', 4), (''s3'', 9)])))) = [] \<and>
   submitTask (ex_env (Some ''alice'') True {QInsertRatings}) ex_db
     (ex_form [(''s1'', 5), (''s2'', 4), (''s3'', 3)]) =
     (Inl ''Failed to save skill ratings'', ex_db)"
  by code_simp

subsection \<open>C4: the skill averages of the summary\<close>

text \<open>
  C4 asks that the skill averages of the summary come from the observations of the tasks in
  the date range. \<open>getPerformanceSummary\<close> calls \<open>getOverallSkillAverages\<close>, which takes
  no dates: for March 2024 only task t2 is in range, yet the summary reports the all-time
  averages (Testing 3 from two ratings), not those of the range (Testing 2 from one
  rating).
\<close>

theorem summary_averages_ignore_date_filter:
  "map t_id (select_tasks (ex_env (Some ''alice'') True {}) ex_db ''alice''
       (Some (2024, 3, 1)) (Some (2024, 3, 31))) = [''t2''] \<and>
   skill_averages (getPerformanceSummary (ex_env (Some ''alice'') True {}) ex_db
       (Some (2024, 3, 1)) (Some (2024, 3, 31))) =
     [ex_average ''s1'' ''Testing'' 3 2 2 4, ex_average ''s2'' ''Analysis'' 3 2 2 4,
      ex_average ''s3'' ''Mentoring'' 3 1 3 3] \<and>
   all_skills (period_skill_averages (ex_env (Some ''alice'') True {}) ex_db ''alice''
       (Some (2024, 3, 1)) (Some (2024, 3, 31))) =
     [ex_average ''s3'' ''Mentoring'' 3 1 3 3, ex_average ''s1'' ''Testing'' 2 1 2 2,
      ex_average ''s2'' ''Analysis'' 2 1 2 2] \<and>
   overall_average (getPerformanceSummary (ex_env (Some ''alice'') True {}) ex_db
       (Some (2024, 3, 1)) (Some (2024, 3, 31))) = 3"
  by code_simp

subsection \<open>C5: the order of the averages\<close>

text \<open>
  C5, amended: the list of averages is sorted by mean rating descending, it holds the same
  entries as before the sort, and entries of equal mean keep the order in which they
  arrived (for each mean \<open>k\<close>, the entries of mean \<open>k\<close> are in the same order before and
  after), so the output is determined by the input sequence. The code has no tie-break on
  count or name.
\<close>

theorem averages_sorted_by_mean_ties_in_arrival_order:
  "sorted_wrt (\<lambda>a b. average_rating b \<le> average_rating a)
     (all_skills (getOverallSkillAverages e d)) \<and>
   mset (all_skills (getOverallSkillAverages e d)) = mset (unsorted_all_skills e d) \<and>
   filter (\<lambda>a. average_rating a = k) (all_skills (getOverallSkillAverages e d)) =
     filter (\<lambda>a. average_rating a = k) (unsorted_all_skills e d)"
proof -
  let ?key = "\<lambda>a. - average_rating a"
  have all: "all_skills (getOverallSkillAverages e d) = sort_key ?key (unsorted_all_skills e d)"
    by (simp add: getOverallSkillAverages_rank all_skills_rank)
  have "filter (\<lambda>a. ?key a = - k) (sort_key ?key (unsorted_all_skills e d)) =
          filter (\<lambda>a. ?key a = - k) (unsorted_all_skills e d)"
    by (rule sort_key_stable)
  then have stable: "filter (\<lambda>a. average_rating a = k) (sort_key ?key (unsorted_all_skills e d)) =
          filter (\<lambda>a. average_rating a = k) (unsorted_all_skills e d)"
    by simp
  show ?thesis
    unfolding all using stable by (simp add: sorted_desc_sort_key)
qed

theorem ties_in_arrival_order_witness:
  "filter (\<lambda>a. average_rating a = 3)
     (all_skills (getOverallSkillAverages (ex_env (Some ''alice'') True {}) ex_db)) =
   [ex_average ''s1'' ''Testing'' 3 2 2 4, ex_average ''s2'' ''Analysis'' 3 2 2 4,
    ex_average ''s3'' ''Mentoring'' 3 1 3 3]"
proof -
  have "filter (\<lambda>a. average_rating a = 3)
          (unsorted_all_skills (ex_env (Some ''alice'') True {}) ex_db) =
        [ex_average ''s1'' ''Testing'' 3 2 2 4, ex_average ''s2'' ''Analysis'' 3 2 2 4,
         ex_average ''s3'' ''Mentoring'' 3 1 3 3]"
    by code_simp
  with averages_sorted_by_mean_ties_in_arrival_order [of "ex_env (Some ''alice'') True {}" ex_db 3]
  show ?thesis by simp
qed

text \<open>
  C5 as stated fails: Testing and Analysis have the same mean and the same count, and
  Testing stays before Analysis.
\<close>

theorem tie_break_counterexample:
  "\<not> sorted_wrt spec_order
       (all_skills (getOverallSkillAverages (ex_env (Some ''alice'') True {}) ex_db))"
  by code_simp

subsection \<open>C6: strengths and growth opportunities\<close>

text \<open>
  C6: \<open>strengths\<close> is the first five entries of the sorted list \<open>all_skills\<close> (all of
  them when there are fewer), \<open>growth_opportunities\<close> is its last five entries reversed,
  so reversing it gives the tail of the sorted list; with at most five entries both lists
  hold every entry, one the reverse of the other.
\<close>

theorem top5_bottom5_of_sorted_list:
  "sorted_wrt (\<lambda>a b. average_rating b \<le> average_rating a)
     (all_skills (getOverallSkillAverages e d)) \<and>
   strengths (getOverallSkillAverages e d) = take 5 (all_skills (getOverallSkillAverages e d)) \<and>
   growth_opportunities (getOverallSkillAverages e d) =
     rev (drop (length (all_skills (getOverallSkillAverages e d)) - 5)
            (all_skills (getOverallSkillAverages e d))) \<and>
   rev (growth_opportunities (getOverallSkillAverages e d)) =
     drop (length (all_skills (getOverallSkillAverages e d)) - 5)
       (all_skills (getOverallSkillAverages e d)) \<and>
   length (strengths (getOverallSkillAverages e d)) =
     min 5 (length (all_skills (getOverallSkillAverages e d))) \<and>
   length (growth_opportunities (getOverallSkillAverages e d)) =
     min 5 (length (all_skills (getOverallSkillAverages e d))) \<and>
   (length (all_skills (getOverallSkillAverages e d)) \<le> 5 \<longrightarrow>
      strengths (getOverallSkillAverages e d) = all_skills (getOverallSkillAverages e d) \<and>
      growth_opportunities (getOverallSkillAverages e d) =
        rev (all_skills (getOverallSkillAverages e d)))"
proof -
  let ?r = "rank_skills (unsorted_all_skills e d)"
  have r: "getOverallSkillAverages e d = ?r"
    by (rule getOverallSkillAverages_rank)
  have srt: "sorted_wrt (\<lambda>a b. average_rating b \<le> average_rating a) (all_skills ?r)"
    by (simp add: all_skills_rank sorted_desc_sort_key)
  have top: "strengths ?r = take 5 (all_skills ?r)"
    by (rule strengths_rank)
  have bot: "growth_opportunities ?r = rev (drop (length (all_skills ?r) - 5) (all_skills ?r))"
    by (rule growth_rank)
  from srt top bot show ?thesis
    unfolding r by auto
qed

theorem top5_bottom5_overlap_witness:
  "length (all_skills (getOverallSkillAverages (ex_env (Some ''alice'') True {}) ex_db)) \<le> 5 \<and>
   strengths (getOverallSkillAverages (ex_env (Some ''alice'') True {}) ex_db) =
     all_skills (getOverallSkillAverages (ex_env (Some ''alice'') True {}) ex_db) \<and>
   growth_opportunities (getOverallSkillAverages (ex_env (Some ''alice'') True {}) ex_db) =
     rev (all_skills (getOverallSkillAverages (ex_env (Some ''alice'') True {}) ex_db)) \<and>
   strengths (getOverallSkillAverages ex_env_rpc ex_db) =
     [ex_average ''s1'' ''Testing'' 5 2 5 5, ex_average ''s7'' ''Planning'' (9 / 2) 2 4 5,
      ex_average ''s2'' ''Analysis'' 4 2 4 4, ex_average ''s3'' ''Mentoring'' 3 1 3 3,
      ex_average ''s6'' ''English'' 2 1 2 2] \<and>
   growth_opportunities (getOverallSkillAverages ex_env_rpc ex_db) =
     [ex_average ''s5'' ''QA'' 1 1 1 1, ex_average ''s6'' ''English'' 2 1 2 2,
      ex_average ''s3'' ''Mentoring'' 3 1 3 3, ex_average ''s2'' ''Analysis'' 4 2 4 4,
      ex_average ''s7'' ''Planning'' (9 / 2) 2 4 5]"
proof -
  have few: "length (all_skills (getOverallSkillAverages (ex_env (Some ''alice'') True {}) ex_db)) \<le> 5"
    by code_simp
  have six: "all_skills (getOverallSkillAverages ex_env_rpc ex_db) =
     [ex_average ''s1'' ''Testing'' 5 2 5 5, ex_average ''s7'' ''Planning'' (9 / 2) 2 4 5,
      ex_average ''s2'' ''Analysis'' 4 2 4 4, ex_average ''s3'' ''Mentoring'' 3 1 3 3,
      ex_average ''s6'' ''English'' 2 1 2 2, ex_average ''s5'' ''QA'' 1 1 1 1]"
    by code_simp
  from few six top5_bottom5_of_sorted_list [of "ex_env (Some ''alice'') True {}" ex_db]
    top5_bottom5_of_sorted_list [of ex_env_rpc ex_db]
  show ?thesis
    by simp
qed

subsection \<open>C7: a caller who does not own the task\<close>

text \<open>
  C7, amended: when the caller does not own the target task, \<open>updateTask\<close> and
  \<open>deleteTask\<close> return an error and leave the tables unchanged: "Not authorized ..." when
  the ownership query can read the row, "Task not found" when row-level security hides it
  or the query fails. \<open>getTaskById\<close> returns null and \<open>getUserTasks\<close> for another user
  returns the empty list. No operation returns data of the other user.
\<close>

theorem not_owner_gets_error_or_nothing:
  assumes "session e = Some uid" and "t \<in> set (tasks d)" and "user_id t \<noteq> uid"
    and "distinct (map t_id (tasks d))" and "other \<noteq> uid" and "other \<noteq> []"
  shows "updateTask e d (t_id t) f =
           (Inl (if rls e \<or> QSelectOwner \<in> down e then ''Task not found''
                 else ''Not authorized to update this task''), d) \<and>
         deleteTask e d (t_id t) =
           (Inl (if rls e \<or> QSelectOwner \<in> down e then ''Task not found''
                 else ''Not authorized to delete this task''), d) \<and>
         getTaskById e d (t_id t) = None \<and>
         getUserTasks e d (Some other) limit offset = []"
proof -
  note own = select_owner_foreign [OF assms(1-4)]
  have upd: "updateTask e d (t_id t) f =
           (Inl (if rls e \<or> QSelectOwner \<in> down e then ''Task not found''
                 else ''Not authorized to update this task''), d)"
    using assms(1,3) by (simp add: updateTask_def getCurrentUser_def own)
  have del: "deleteTask e d (t_id t) =
           (Inl (if rls e \<or> QSelectOwner \<in> down e then ''Task not found''
                 else ''Not authorized to delete this task''), d)"
    using assms(1,3) by (simp add: deleteTask_def getCurrentUser_def own)
  have get: "getTaskById e d (t_id t) = None"
    using assms(1,3)
    by (simp add: getTaskById_def getTaskById_try_def try_catch_def getCurrentUser_def
        visible_rows_of_foreign_task [OF assms(1-4)])
  have lst: "getUserTasks e d (Some other) limit offset = []"
    using assms(1,5,6)
    by (simp add: getUserTasks_def getUserTasks_try_def try_catch_def getCurrentUser_def
        or_null_def Let_def)
  from upd del get lst show ?thesis by blast
qed

theorem not_owner_witness:
  "updateTask (ex_env (Some ''bob'') False {}) ex_db ''t1'' (ex_form []) =
     (Inl ''Not authorized to update this task'', ex_db) \<and>
   deleteTask (ex_env (Some ''bob'') False {}) ex_db ''t1'' =
     (Inl ''Not authorized to delete this task'', ex_db) \<and>
   updateTask (ex_env (Some ''bob'') True {}) ex_db ''t1'' (ex_form []) =
     (Inl ''Task not found'', ex_db) \<and>
   deleteTask (ex_env (Some ''bob'') True {}) ex_db ''t1'' = (Inl ''Task not found'', ex_db) \<and>
   getTaskById (ex_env (Some ''bob'') False {}) ex_db ''t1'' = None \<and>
   getUserTasks (ex_env (Some ''bob'') False {}) ex_db (Some ''alice'') 50 0 = []"
proof -
  let ?t = "ex_task ''t1'' ''alice'' (2024, 1, 10) True"
  have t: "?t \<in> set (tasks ex_db)" and k: "t_id ?t = ''t1''" and o: "user_id ?t \<noteq> ''bob''"
    and ids: "distinct (map t_id (tasks ex_db))"
    by (simp_all add: ex_db_def ex_task_def)
  have a: "''alice'' \<noteq> ''bob''" "''alice'' \<noteq> []"
    by simp_all
  have s: "session (ex_env (Some ''bob'') secured {}) = Some ''bob''"
     and r: "rls (ex_env (Some ''bob'') secured {}) = secured"
     and dn: "down (ex_env (Some ''bob'') secured {}) = {}" for secured
    by (simp_all add: ex_env_def)
  from not_owner_gets_error_or_nothing [OF s t o ids a, of False "ex_form []" 50 0]
    not_owner_gets_error_or_nothing [OF s t o ids a, of True "ex_form []" 50 0]
  show ?thesis
    by (simp add: k r dn)
qed

text \<open>
  C7 as stated fails for the two read operations: the authorization error they throw is
  caught inside them, and the caller gets null, as for a task that does not exist, or the
  empty list, as for a user who has no tasks.
\<close>

theorem silent_denial_counterexample:
  "getTaskById_try (ex_env (Some ''bob'') False {}) ex_db ''t1'' =
     Inl ''Not authorized to view this task'' \<and>
   getTaskById (ex_env (Some ''bob'') False {}) ex_db ''t1'' = None \<and>
   getTaskById (ex_env (Some ''bob'') False {}) ex_db ''t0'' = None \<and>
   getUserTasks_try (ex_env (Some ''bob'') False {}) ex_db (Some ''alice'') 50 0 =
     Inl ''Not authorized to view these tasks'' \<and>
   getUserTasks (ex_env (Some ''bob'') False {}) ex_db (Some ''alice'') 50 0 = [] \<and>
   getUserTasks (ex_env (Some ''carol'') False {}) ex_db (Some ''carol'') 50 0 = []"
  by code_simp

subsection \<open>C8: the summary of an empty task set\<close>

text \<open>
  C8: when the task query answers and no task passes the filter, the body of
  \<open>getPerformanceSummary\<close> returns (it does not throw, so the catch is not entered) the
  summary with \<open>total_tasks = 0\<close>, every numeric field zero and the three lists empty;
  this is what the caller receives. The code returns this record before any division.
\<close>

theorem empty_task_set_gives_empty_summary:
  assumes "session e = Some uid" and "QTasksSummary \<notin> down e"
    and "select_tasks e d uid startDate endDate = []"
  shows "getPerformanceSummary_try e d startDate endDate =
           Inr \<lparr>total_tasks = 0, overall_average = 0, skill_averages = [],
                summary_strengths = [], summary_growth_opportunities = [],
                on_time_delivery_rate = 0, manager_issues_rate = 0,
                manager_helped_rate = 0\<rparr> \<and>
         getPerformanceSummary e d startDate endDate =
           \<lparr>total_tasks = 0, overall_average = 0, skill_averages = [], summary_strengths = [],
            summary_growth_opportunities = [], on_time_delivery_rate = 0,
            manager_issues_rate = 0, manager_helped_rate = 0\<rparr>"
proof -
  have body: "getPerformanceSummary_try e d startDate endDate = Inr empty_summary"
    using assms
    by (simp add: getPerformanceSummary_try_def getCurrentUser_def)
  then have "getPerformanceSummary e d startDate endDate = empty_summary"
    by (simp add: getPerformanceSummary_def try_catch_def)
  with body show ?thesis
    by (simp add: empty_summary_def)
qed

theorem empty_summary_witness:
  "getPerformanceSummary_try (ex_env (Some ''alice'') True {}) ex_db (Some (2025, 1, 1)) None =
     Inr \<lparr>total_tasks = 0, overall_average = 0, skill_averages = [],
          summary_strengths = [], summary_growth_opportunities = [],
          on_time_delivery_rate = 0, manager_issues_rate = 0, manager_helped_rate = 0\<rparr> \<and>
   getPerformanceSummary (ex_env (Some ''alice'') True {}) ex_db (Some (2025, 1, 1)) None =
     \<lparr>total_tasks = 0, overall_average = 0, skill_averages = [], summary_strengths = [],
      summary_growth_opportunities = [], on_time_delivery_rate = 0,
      manager_issues_rate = 0, manager_helped_rate = 0\<rparr>"
proof -
  have s: "session (ex_env (Some ''alice'') True {}) = Some ''alice''"
    and up: "QTasksSummary \<notin> down (ex_env (Some ''alice'') True {})"
    by (simp_all add: ex_env_def)
  have none: "select_tasks (ex_env (Some ''alice'') True {}) ex_db ''alice''
                (Some (2025, 1, 1)) None = []"
    by code_simp
  from empty_task_set_gives_empty_summary [OF s up none] show ?thesis .
qed

subsection \<open>C9: the overall average\<close>

text \<open>
  C9, amended: when the summary has skill averages, they are the averages that
  \<open>getOverallSkillAverages\<close> returns, and \<open>overall_average\<close> is their sum divided by their
  number: the arithmetic mean of the per-skill means, not the mean of all raw ratings.
  Nothing is claimed about when the two differ.
\<close>

theorem overall_average_is_mean_of_means:
  "skill_averages (getPerformanceSummary e d s t) \<noteq> [] \<longrightarrow>
     skill_averages (getPerformanceSummary e d s t) = all_skills (getOverallSkillAverages e d) \<and>
     overall_average (getPerformanceSummary e d s t) =
       sum_list (map average_rating (skill_averages (getPerformanceSummary e d s t)))
         / of_nat (length (skill_averages (getPerformanceSummary e d s t)))"
proof
  assume "skill_averages (getPerformanceSummary e d s t) \<noteq> []"
  from summary_long_path [OF this]
  show "skill_averages (getPerformanceSummary e d s t) = all_skills (getOverallSkillAverages e d) \<and>
     overall_average (getPerformanceSummary e d s t) =
       sum_list (map average_rating (skill_averages (getPerformanceSummary e d s t)))
         / of_nat (length (skill_averages (getPerformanceSummary e d s t)))"
    by simp
qed

text \<open>
  With the ratings Testing 5, 5, Analysis 2, 2 and Mentoring 5, the per-skill means are
  5, 2 and 5 and \<open>overall_average\<close> is 4, while the mean of the five raw ratings is 19 / 5.
\<close>

theorem mean_of_means_witness:
  "map average_rating
     (skill_averages (getPerformanceSummary (ex_env (Some ''alice'') True {}) ex_db_uneven
        None None)) = [5, 5, 2] \<and>
   overall_average (getPerformanceSummary (ex_env (Some ''alice'') True {}) ex_db_uneven
        None None) = 4 \<and>
   mean (concat (observation_groups (ex_env (Some ''alice'') True {}) ex_db_uneven ''alice'')) =
     19 / 5"
proof -
  let ?e = "ex_env (Some ''alice'') True {}"
  have avgs: "skill_averages (getPerformanceSummary ?e ex_db_uneven None None) =
      [ex_average ''s1'' ''Testing'' 5 2 5 5, ex_average ''s3'' ''Mentoring'' 5 1 5 5,
       ex_average ''s2'' ''Analysis'' 2 2 2 2]"
    by code_simp
  have raw: "mean (concat (observation_groups ?e ex_db_uneven ''alice'')) = 19 / 5"
    by code_simp
  have ne: "skill_averages (getPerformanceSummary ?e ex_db_uneven None None) \<noteq> []"
    by (simp add: avgs)
  with overall_average_is_mean_of_means [of ?e ex_db_uneven None None]
  have ov: "overall_average (getPerformanceSummary ?e ex_db_uneven None None) =
      sum_list (map average_rating (skill_averages (getPerformanceSummary ?e ex_db_uneven None None)))
        / of_nat (length (skill_averages (getPerformanceSummary ?e ex_db_uneven None None)))"
    by blast
  have four: "overall_average (getPerformanceSummary ?e ex_db_uneven None None) = 4"
    unfolding ov avgs by (simp add: ex_average_def)
  have means: "map average_rating
      (skill_averages (getPerformanceSummary ?e ex_db_uneven None None)) = [5, 5, 2]"
    by (simp add: avgs ex_average_def)
  from means four raw show ?thesis
    by simp
qed

text \<open>
  C9 as stated fails: unequal counts do not force a difference. With the ratings
  Testing 4, 2, Analysis 4, 2 and Mentoring 3, the skills have 2, 2 and 1 ratings, every
  per-skill mean is 3, and the mean of means equals the mean of the raw ratings, 15 / 5.
\<close>

theorem unequal_counts_equal_means_counterexample:
  "map length (observation_groups (ex_env (Some ''alice'') True {}) ex_db ''alice'') = [2, 2, 1] \<and>
   overall_average (getPerformanceSummary (ex_env (Some ''alice'') True {}) ex_db None None) =
     mean (concat (observation_groups (ex_env (Some ''alice'') True {}) ex_db ''alice''))"
  by code_simp

subsection \<open>C10: failures inside the aggregation entry points\<close>

text \<open>
  C10, amended: every entry point returns a value. A failed authentication, and a failure
  of the entry point's own data query (for the overall averages: of the remote procedure
  and of the manual query), give the empty or all-zero result, which is also the result for
  a user with no data. When the summary's own query finds tasks and only the nested
  overall averages fail, the summary keeps the task count and the rates, with empty skill
  lists and \<open>overall_average = 0\<close>.
\<close>

theorem aggregation_failures_become_empty_results:
  "(session e = None \<longrightarrow>
      getOverallSkillAverages e d = empty_overall \<and> getWeeklySkillTrends e d w = [] \<and>
      getMonthlySkillTrends e d m = [] \<and> getPerformanceSummary e d s t = empty_summary) \<and>
   (QRatingsRange \<in> down e \<longrightarrow>
      getWeeklySkillTrends e d w = [] \<and> getMonthlySkillTrends e d m = []) \<and>
   (QTasksSummary \<in> down e \<longrightarrow> getPerformanceSummary e d s t = empty_summary) \<and>
   (session e = Some uid \<and> rpc_overall e uid = None \<and> QRatingsAllTime \<in> down e \<longrightarrow>
      getOverallSkillAverages e d = empty_overall) \<and>
   (session e = Some uid \<and> list_all (\<lambda>x. user_id x \<noteq> uid) (tasks d) \<and>
    (rpc_overall e uid = None \<or> rpc_overall e uid = Some []) \<longrightarrow>
      getOverallSkillAverages e d = empty_overall \<and> getWeeklySkillTrends e d w = [] \<and>
      getMonthlySkillTrends e d m = [] \<and> getPerformanceSummary e d s t = empty_summary) \<and>
   (session e = Some uid \<and> QTasksSummary \<notin> down e \<and> select_tasks e d uid s t \<noteq> [] \<and>
    rpc_overall e uid = None \<and> QRatingsAllTime \<in> down e \<longrightarrow>
      getPerformanceSummary e d s t =
        \<lparr>total_tasks = length (select_tasks e d uid s t), overall_average = 0,
         skill_averages = [], summary_strengths = [], summary_growth_opportunities = [],
         on_time_delivery_rate =
           rate (length (filter delivered_on_time (select_tasks e d uid s t)))
             (length (select_tasks e d uid s t)),
         manager_issues_rate =
           rate (length (filter manager_found_issues (select_tasks e d uid s t)))
             (length (select_tasks e d uid s t)),
         manager_helped_rate =
           rate (length (filter manager_helped_analysis (select_tasks e d uid s t)))
             (length (select_tasks e d uid s t))\<rparr>)"
proof -
  have unauth: "session e = None \<longrightarrow>
      getOverallSkillAverages e d = empty_overall \<and> getWeeklySkillTrends e d w = [] \<and>
      getMonthlySkillTrends e d m = [] \<and> getPerformanceSummary e d s t = empty_summary"
    by (simp add: unauthenticated_results)
  have range: "QRatingsRange \<in> down e \<longrightarrow>
      getWeeklySkillTrends e d w = [] \<and> getMonthlySkillTrends e d m = []"
    by (simp add: range_query_down)
  have summary: "QTasksSummary \<in> down e \<longrightarrow> getPerformanceSummary e d s t = empty_summary"
    by (simp add: tasks_query_down)
  have overall: "session e = Some uid \<and> rpc_overall e uid = None \<and> QRatingsAllTime \<in> down e \<longrightarrow>
      getOverallSkillAverages e d = empty_overall"
    by (simp add: overall_queries_down)
  have no_data: "session e = Some uid \<and> list_all (\<lambda>x. user_id x \<noteq> uid) (tasks d) \<and>
    (rpc_overall e uid = None \<or> rpc_overall e uid = Some []) \<longrightarrow>
      getOverallSkillAverages e d = empty_overall \<and> getWeeklySkillTrends e d w = [] \<and>
      getMonthlySkillTrends e d m = [] \<and> getPerformanceSummary e d s t = empty_summary"
    using no_data_results [of e uid d] by blast
  have nested: "session e = Some uid \<and> QTasksSummary \<notin> down e \<and>
    select_tasks e d uid s t \<noteq> [] \<and> rpc_overall e uid = None \<and> QRatingsAllTime \<in> down e \<longrightarrow>
      getPerformanceSummary e d s t =
        \<lparr>total_tasks = length (select_tasks e d uid s t), overall_average = 0,
         skill_averages = [], summary_strengths = [], summary_growth_opportunities = [],
         on_time_delivery_rate =
           rate (length (filter delivered_on_time (select_tasks e d uid s t)))
             (length (select_tasks e d uid s t)),
         manager_issues_rate =
           rate (length (filter manager_found_issues (select_tasks e d uid s t)))
             (length (select_tasks e d uid s t)),
         manager_helped_rate =
           rate (length (filter manager_helped_analysis (select_tasks e d uid s t)))
             (length (select_tasks e d uid s t))\<rparr>"
    using nested_failure_result [of e uid d s t] by blast
  from unauth range summary overall no_data nested show ?thesis
    by blast
qed

theorem aggregation_failures_witness:
  "getOverallSkillAverages (ex_env None True {}) ex_db = empty_overall \<and>
   getWeeklySkillTrends (ex_env None True {}) ex_db 12 = [] \<and>
   getMonthlySkillTrends (ex_env None True {}) ex_db 6 = [] \<and>
   getPerformanceSummary (ex_env None True {}) ex_db None None = empty_summary \<and>
   getWeeklySkillTrends (ex_env (Some ''alice'') True {QRatingsRange}) ex_db 12 = [] \<and>
   getMonthlySkillTrends (ex_env (Some ''alice'') True {QRatingsRange}) ex_db 6 = [] \<and>
   getPerformanceSummary (ex_env (Some ''alice'') True {QTasksSummary}) ex_db None None =
     empty_summary \<and>
   getOverallSkillAverages (ex_env (Some ''alice'') True {QRatingsAllTime}) ex_db =
     empty_overall \<and>
   getOverallSkillAverages (ex_env (Some ''carol'') True {}) ex_db = empty_overall \<and>
   getWeeklySkillTrends (ex_env (Some ''carol'') True {}) ex_db 12 = [] \<and>
   getMonthlySkillTrends (ex_env (Some ''carol'') True {}) ex_db 6 = [] \<and>
   getPerformanceSummary (ex_env (Some ''carol'') True {}) ex_db None None = empty_summary \<and>
   getPerformanceSummary (ex_env (Some ''alice'') True {QRatingsAllTime}) ex_db None None =
     \<lparr>total_tasks = 2, overall_average = 0, skill_averages = [], summary_strengths = [],
      summary_growth_opportunities = [], on_time_delivery_rate = 50,
      manager_issues_rate = 0, manager_helped_rate = 0\<rparr>"
proof -
  have env: "session (ex_env who secured failing) = who"
    "down (ex_env who secured failing) = failing"
    "rpc_overall (ex_env who secured failing) uid = None" for who secured failing uid
    by (simp_all add: ex_env_def)
  have carol: "list_all (\<lambda>x. user_id x \<noteq> ''carol'') (tasks ex_db)"
    by (simp add: ex_db_def ex_task_def)
  have alice: "select_tasks (ex_env (Some ''alice'') True {QRatingsAllTime}) ex_db ''alice''
                 None None =
               [ex_task ''t1'' ''alice'' (2024, 1, 10) True,
                ex_task ''t2'' ''alice'' (2024, 3, 10) False]"
    by code_simp
  from aggregation_failures_become_empty_results
         [of "ex_env None True {}" ex_db 12 6 None None "''alice''"]
    aggregation_failures_become_empty_results
         [of "ex_env (Some ''alice'') True {QRatingsRange}" ex_db 12 6 None None "''alice''"]
    aggregation_failures_become_empty_results
         [of "ex_env (Some ''alice'') True {QTasksSummary}" ex_db 12 6 None None "''alice''"]
    aggregation_failures_become_empty_results
         [of "ex_env (Some ''alice'') True {QRatingsAllTime}" ex_db 12 6 None None "''alice''"]
    aggregation_failures_become_empty_results
         [of "ex_env (Some ''carol'') True {}" ex_db 12 6 None None "''carol''"]
  show ?thesis
    by (simp add: env carol alice rate_def ex_task_def)
qed

text \<open>
  C10 as stated fails: with the remote procedure and the manual query failing, Alice's
  summary has two tasks and an on-time rate of 50, unlike the summary of a user with no
  data.
\<close>

theorem nested_failure_counterexample:
  "getPerformanceSummary (ex_env (Some ''alice'') True {QRatingsAllTime}) ex_db None None \<noteq>
     getPerformanceSummary (ex_env (Some ''carol'') True {}) ex_db None None \<and>
   total_tasks
     (getPerformanceSummary (ex_env (Some ''alice'') True {QRatingsAllTime}) ex_db None None) = 2 \<and>
   on_time_delivery_rate
     (getPerformanceSummary (ex_env (Some ''alice'') True {QRatingsAllTime}) ex_db None None) = 50 \<and>
   getPerformanceSummary (ex_env (Some ''carol'') True {}) ex_db None None = empty_summary"
  by code_simp

end
